theory Spec2Isabelle
  imports Complex_Main
begin

section \<open>The three-stage battery optimiser of \<^verbatim>\<open>optimizer.py\<close>\<close>

text \<open>
  \<^verbatim>\<open>optimizer.py\<close> holds three functions, \<^verbatim>\<open>step1_optimize_daa\<close>,
  \<^verbatim>\<open>step2_optimize_ida\<close> and \<^verbatim>\<open>step3_optimize_idc\<close>. Each builds a Pyomo
  \<^verbatim>\<open>ConcreteModel\<close> (indexed variables, constraint rules, an objective to maximise), hands
  it to GLPK, reads the variables' values back and post-processes them.

  The embedding is shallow. An assignment of the model's variables is a record of functions
  from the Pyomo index to a number; a constraint rule \<^verbatim>\<open>rule(model, q)\<close> is a predicate on
  the assignment and the index; a constraint component \<^verbatim>\<open>pyo.Constraint(S, rule=r)\<close> is the
  rule at every index of \<^verbatim>\<open>S\<close>. Numbers are \<^typ>\<open>real\<close>: the constraints of a linear
  program are relations between real numbers, and Python's \<^verbatim>\<open>/\<close> is true division;
  neither the rounding nor the overflow of floating-point arithmetic is modelled (see
  \<open>fits_float\<close> below). The
  parameters \<^verbatim>\<open>n_cycles\<close>, \<^verbatim>\<open>energy_cap\<close> and \<^verbatim>\<open>power_cap\<close> are annotated
  \<^verbatim>\<open>int\<close> in the source, which Python does not enforce; they are reals here, the
  integers among them. The solver is outside the repository and is a parameter of each stage.
\<close>

subsection \<open>Exceptions and the solver\<close>

text \<open>
  The exceptions a stage can end with. None is raised by a \<^verbatim>\<open>raise\<close> of the source:
  \<^verbatim>\<open>KeyError\<close> comes from a Pyomo variable read at an index outside its index set,
  \<^verbatim>\<open>IndexError\<close> from a Python list read past its end, \<^verbatim>\<open>TypeError\<close> from
  arithmetic on the value \<^verbatim>\<open>None\<close> of a variable the solver gave no value,
  \<^verbatim>\<open>ValueError\<close> from NumPy arithmetic on arrays of different lengths and from a
  Pyomo \<^verbatim>\<open>RangeSet\<close> whose end lies before its start. \<open>SolverError\<close> stands for
  whatever exception \<^verbatim>\<open>solver.solve\<close> itself ends with (with no executable at the
  configured path, Pyomo's \<^verbatim>\<open>ApplicationError\<close> or a \<^verbatim>\<open>RuntimeError\<close>,
  depending on the installation): its class is the solver adapter's, not the source's.
\<close>

datatype error = KeyError | IndexError | TypeError | ValueError | SolverError

text \<open>
  What \<^verbatim>\<open>solver.solve(model, timelimit=5)\<close> leaves behind: it raises, or it returns with
  no value loaded into the variables (every \<^verbatim>\<open>.value\<close> is \<^verbatim>\<open>None\<close>, as after an
  infeasible model), or it returns with a value loaded into every variable. The source
  discards the result object of \<^verbatim>\<open>solve\<close>, so nothing else of it reaches the program.
  A solve that loads a value into some variables and none into others is not modelled.
\<close>

datatype 'v solved = Raises | NoValues | Values 'v

text \<open>
  A linear program over assignments of type \<^typ>\<open>'v\<close>: the conjunction of the variables'
  bounds and the constraints, and the objective (the sense is \<^verbatim>\<open>pyo.maximize\<close> in all
  three stages).
\<close>

record 'v lp =
  feasible :: "'v \<Rightarrow> bool"
  obj :: "'v \<Rightarrow> real"

type_synonym 'v solver = "'v lp \<Rightarrow> 'v solved"

text \<open>The bounds of a position variable: \<^verbatim>\<open>domain=pyo.NonNegativeReals, bounds=(0,1)\<close>.\<close>

definition unit_bounds :: "(nat \<Rightarrow> real) \<Rightarrow> nat \<Rightarrow> bool" where
  "unit_bounds x q = (0 \<le> x q \<and> x q \<le> 1)"



subsection \<open>Stage 1: the day-ahead auction\<close>

text \<open>
  The variables of the Stage 1 model: \<^verbatim>\<open>model.soc\<close> over \<^verbatim>\<open>Q_plus_1\<close>,
  \<^verbatim>\<open>model.cha_daa\<close> and \<^verbatim>\<open>model.dis_daa\<close> over \<^verbatim>\<open>Q\<close>. The three stages each
  have a variable \<^verbatim>\<open>soc\<close>; the fields carry the stage's suffix to tell them apart.
\<close>

record vars_daa =
  soc_daa :: "nat \<Rightarrow> real"
  cha_daa :: "nat \<Rightarrow> real"
  dis_daa :: "nat \<Rightarrow> real"

text \<open>The index sets of Stage 1 are fixed: \<^verbatim>\<open>RangeSet(0,23)\<close>, \<^verbatim>\<open>RangeSet(1,96)\<close>,
  \<^verbatim>\<open>RangeSet(1,97)\<close>.\<close>

definition daa_H :: "nat list" where
  "daa_H = [0..<24]"

definition daa_Q :: "nat list" where
  "daa_Q = [1..<97]"

definition daa_Q_plus_1 :: "nat list" where
  "daa_Q_plus_1 = [1..<98]"

text \<open>The constraint rules of \<^verbatim>\<open>step1_optimize_daa\<close>, in the order of the source
  (constraints 1.1 to 1.9). The three rules named \<^verbatim>\<open>dis_daa_quarters_*_parity\<close> read
  \<^verbatim>\<open>model.cha_daa\<close> in the source, and so do they here.\<close>

definition daa_set_maximum_soc :: "real \<Rightarrow> vars_daa \<Rightarrow> nat \<Rightarrow> bool" where
  "daa_set_maximum_soc energy_cap model q = (soc_daa model q \<le> energy_cap)"

definition daa_set_minimum_soc :: "vars_daa \<Rightarrow> nat \<Rightarrow> bool" where
  "daa_set_minimum_soc model q = (soc_daa model q \<ge> 0)"

definition daa_set_first_soc_to_0 :: "vars_daa \<Rightarrow> bool" where
  "daa_set_first_soc_to_0 model = (soc_daa model 1 = 0)"

definition daa_set_last_soc_to_0 :: "vars_daa \<Rightarrow> bool" where
  "daa_set_last_soc_to_0 model = (soc_daa model 97 = 0)"

definition daa_soc_step_constraint :: "real \<Rightarrow> vars_daa \<Rightarrow> nat \<Rightarrow> bool" where
  "daa_soc_step_constraint power_cap model q =
     (soc_daa model (q + 1) =
        soc_daa model q + power_cap / 4 * cha_daa model q - power_cap / 4 * dis_daa model q)"

definition daa_charge_cycle_limit :: "real \<Rightarrow> real \<Rightarrow> vars_daa \<Rightarrow> bool" where
  "daa_charge_cycle_limit power_cap volume_limit model =
     ((\<Sum>q\<leftarrow>daa_Q. cha_daa model q * power_cap / 4) \<le> volume_limit)"

definition daa_discharge_cycle_limit :: "real \<Rightarrow> real \<Rightarrow> vars_daa \<Rightarrow> bool" where
  "daa_discharge_cycle_limit power_cap volume_limit model =
     ((\<Sum>q\<leftarrow>daa_Q. dis_daa model q * power_cap / 4) \<le> volume_limit)"

definition cha_daa_quarters_1_2_parity :: "vars_daa \<Rightarrow> nat \<Rightarrow> bool" where
  "cha_daa_quarters_1_2_parity model q = (cha_daa model (4 * q + 1) = cha_daa model (4 * q + 2))"

definition cha_daa_quarters_2_3_parity :: "vars_daa \<Rightarrow> nat \<Rightarrow> bool" where
  "cha_daa_quarters_2_3_parity model q = (cha_daa model (4 * q + 2) = cha_daa model (4 * q + 3))"

definition cha_daa_quarters_3_4_parity :: "vars_daa \<Rightarrow> nat \<Rightarrow> bool" where
  "cha_daa_quarters_3_4_parity model q = (cha_daa model (4 * q + 3) = cha_daa model (4 * q + 4))"

definition dis_daa_quarters_1_2_parity :: "vars_daa \<Rightarrow> nat \<Rightarrow> bool" where
  "dis_daa_quarters_1_2_parity model q = (cha_daa model (4 * q + 1) = cha_daa model (4 * q + 2))"

definition dis_daa_quarters_2_3_parity :: "vars_daa \<Rightarrow> nat \<Rightarrow> bool" where
  "dis_daa_quarters_2_3_parity model q = (cha_daa model (4 * q + 2) = cha_daa model (4 * q + 3))"

definition dis_daa_quarters_3_4_parity :: "vars_daa \<Rightarrow> nat \<Rightarrow> bool" where
  "dis_daa_quarters_3_4_parity model q = (cha_daa model (4 * q + 3) = cha_daa model (4 * q + 4))"

text \<open>The bounds declared with the variables: none on \<^verbatim>\<open>soc\<close>
  (\<^verbatim>\<open>domain=pyo.Reals\<close>), the unit interval on the two position variables.\<close>

definition daa_var_bounds :: "vars_daa \<Rightarrow> bool" where
  "daa_var_bounds model =
     (list_all (unit_bounds (cha_daa model)) daa_Q \<and> list_all (unit_bounds (dis_daa model)) daa_Q)"

text \<open>The constraint components, as \<^verbatim>\<open>step1_optimize_daa\<close> applies them to the model;
  \<^verbatim>\<open>volume_limit = energy_cap * n_cycles\<close>.\<close>

definition daa_constraints :: "real \<Rightarrow> real \<Rightarrow> real \<Rightarrow> vars_daa \<Rightarrow> bool" where
  "daa_constraints n_cycles energy_cap power_cap model =
     (let volume_limit = energy_cap * n_cycles in
        list_all (daa_set_maximum_soc energy_cap model) daa_Q_plus_1
      \<and> list_all (daa_set_minimum_soc model) daa_Q_plus_1
      \<and> daa_set_first_soc_to_0 model
      \<and> daa_set_last_soc_to_0 model
      \<and> list_all (daa_soc_step_constraint power_cap model) daa_Q
      \<and> daa_charge_cycle_limit power_cap volume_limit model
      \<and> daa_discharge_cycle_limit power_cap volume_limit model
      \<and> list_all (cha_daa_quarters_1_2_parity model) daa_H
      \<and> list_all (cha_daa_quarters_2_3_parity model) daa_H
      \<and> list_all (cha_daa_quarters_3_4_parity model) daa_H
      \<and> list_all (dis_daa_quarters_1_2_parity model) daa_H
      \<and> list_all (dis_daa_quarters_2_3_parity model) daa_H
      \<and> list_all (dis_daa_quarters_3_4_parity model) daa_H)"

definition daa_feasible :: "real \<Rightarrow> real \<Rightarrow> real \<Rightarrow> vars_daa \<Rightarrow> bool" where
  "daa_feasible n_cycles energy_cap power_cap model =
     (daa_var_bounds model \<and> daa_constraints n_cycles energy_cap power_cap model)"

text \<open>The objective: \<^verbatim>\<open>sum(power_cap/4 * daa_price_vector[q-1] * (model.dis_daa[q] -
  model.cha_daa[q]) for q in model.Q)\<close>. The list is read at indices 0 to 95.\<close>

definition daa_obj :: "real \<Rightarrow> real list \<Rightarrow> vars_daa \<Rightarrow> real" where
  "daa_obj power_cap daa_price_vector model =
     (\<Sum>q\<leftarrow>daa_Q. power_cap / 4 * daa_price_vector ! (q - 1) * (dis_daa model q - cha_daa model q))"

definition daa_model :: "real \<Rightarrow> real \<Rightarrow> real \<Rightarrow> real list \<Rightarrow> vars_daa lp" where
  "daa_model n_cycles energy_cap power_cap daa_price_vector =
     \<lparr>feasible = daa_feasible n_cycles energy_cap power_cap,
      obj = daa_obj power_cap daa_price_vector\<rparr>"

text \<open>The four values \<^verbatim>\<open>step1_optimize_daa\<close> returns, each field named \<^verbatim>\<open>out_\<close> and the
  source's name of the value.\<close>

record result_daa =
  out_step1_soc_daa :: "real list"
  out_step1_cha_daa :: "real list"
  out_step1_dis_daa :: "real list"
  out_step1_profit_daa :: real

text \<open>
  Building the Stage 1 model. A Pyomo component of a \<^verbatim>\<open>ConcreteModel\<close> is constructed
  when it is assigned to the model, so the rules and the objective expression run before
  the solver does. The constraint rules of Stage 1 read only the model's variables, at
  indices of their index sets. The objective reads \<^verbatim>\<open>daa_price_vector[q-1]\<close> for
  \<^verbatim>\<open>q\<close> up to 96: a shorter list ends the call with \<^verbatim>\<open>IndexError\<close>.
\<close>

definition daa_build :: "real \<Rightarrow> real \<Rightarrow> real \<Rightarrow> real list \<Rightarrow> error + vars_daa lp" where
  "daa_build n_cycles energy_cap power_cap daa_price_vector =
     (if length daa_price_vector < 96 then Inl IndexError
      else Inr (daa_model n_cycles energy_cap power_cap daa_price_vector))"

text \<open>
  \<^verbatim>\<open>step1_optimize_daa\<close>. After the solve the three list comprehensions read the
  variables at \<^verbatim>\<open>range(1, len(daa_price_vector) + 1)\<close>: a price list longer than 96
  reads \<^verbatim>\<open>model.soc[98]\<close> or \<^verbatim>\<open>model.cha_daa[97]\<close>, a \<^verbatim>\<open>KeyError\<close>. The
  profit is recomputed from the values read, which is arithmetic on \<^verbatim>\<open>None\<close> when no
  value was loaded. The values are returned as read.
\<close>

definition step1_optimize_daa ::
  "vars_daa solver \<Rightarrow> real \<Rightarrow> real \<Rightarrow> real \<Rightarrow> real list \<Rightarrow> error + result_daa" where
  "step1_optimize_daa solver n_cycles energy_cap power_cap daa_price_vector =
     (case daa_build n_cycles energy_cap power_cap daa_price_vector of
        Inl e \<Rightarrow> Inl e
      | Inr lp \<Rightarrow>
         (case solver lp of
            Raises \<Rightarrow> Inl SolverError
          | NoValues \<Rightarrow> (if length daa_price_vector > 96 then Inl KeyError else Inl TypeError)
          | Values model \<Rightarrow>
              if length daa_price_vector > 96 then Inl KeyError
              else
                let soc = map (soc_daa model) [1..<length daa_price_vector + 1];
                    cha = map (cha_daa model) [1..<length daa_price_vector + 1];
                    dis = map (dis_daa model) [1..<length daa_price_vector + 1]
                in Inr \<lparr>out_step1_soc_daa = soc, out_step1_cha_daa = cha,
                        out_step1_dis_daa = dis,
                        out_step1_profit_daa =
                          (\<Sum>q\<leftarrow>[0..<length daa_price_vector].
                             power_cap / 4 * daa_price_vector ! q * (dis ! q - cha ! q))\<rparr>))"

subsection \<open>Stage 2: the intraday auction\<close>

text \<open>
  The variables of the Stage 2 model: \<^verbatim>\<open>model.soc\<close> over \<^verbatim>\<open>Q_plus_1\<close>, and
  \<^verbatim>\<open>model.cha_ida\<close>, \<^verbatim>\<open>model.dis_ida\<close>, \<^verbatim>\<open>model.cha_ida_close\<close>,
  \<^verbatim>\<open>model.dis_ida_close\<close> over \<^verbatim>\<open>Q\<close>.
\<close>

record vars_ida =
  soc_ida :: "nat \<Rightarrow> real"
  cha_ida :: "nat \<Rightarrow> real"
  dis_ida :: "nat \<Rightarrow> real"
  cha_ida_close :: "nat \<Rightarrow> real"
  dis_ida_close :: "nat \<Rightarrow> real"

text \<open>The index sets follow the price vector: \<^verbatim>\<open>RangeSet(1,len(ida_price_vector))\<close> and
  \<^verbatim>\<open>RangeSet(1,len(ida_price_vector)+1)\<close>. (\<^verbatim>\<open>model.H\<close>, declared as
  \<^verbatim>\<open>RangeSet(0,len(ida_price_vector)/4-1)\<close>, is used by no rule of this stage; only
  whether it can be constructed matters, see the build below.)\<close>

definition ida_Q :: "real list \<Rightarrow> nat list" where
  "ida_Q ida_price_vector = [1..<length ida_price_vector + 1]"

definition ida_Q_plus_1 :: "real list \<Rightarrow> nat list" where
  "ida_Q_plus_1 ida_price_vector = [1..<length ida_price_vector + 2]"

text \<open>The constraint rules of \<^verbatim>\<open>step2_optimize_ida\<close> (constraints 2.1 to 2.11). The
  prior positions are Python lists read at \<^verbatim>\<open>q-1\<close>; \<^verbatim>\<open>np.sum\<close> adds up the whole
  list, whatever its length.\<close>

definition ida_set_maximum_soc :: "real \<Rightarrow> vars_ida \<Rightarrow> nat \<Rightarrow> bool" where
  "ida_set_maximum_soc energy_cap model q = (soc_ida model q \<le> energy_cap)"

definition ida_set_minimum_soc :: "vars_ida \<Rightarrow> nat \<Rightarrow> bool" where
  "ida_set_minimum_soc model q = (soc_ida model q \<ge> 0)"

definition ida_set_first_soc_to_0 :: "vars_ida \<Rightarrow> bool" where
  "ida_set_first_soc_to_0 model = (soc_ida model 1 = 0)"

definition ida_set_last_soc_to_0 :: "vars_ida \<Rightarrow> bool" where
  "ida_set_last_soc_to_0 model = (soc_ida model 97 = 0)"

definition ida_soc_step_constraint ::
  "real \<Rightarrow> real list \<Rightarrow> real list \<Rightarrow> vars_ida \<Rightarrow> nat \<Rightarrow> bool" where
  "ida_soc_step_constraint power_cap step1_cha_daa step1_dis_daa model q =
     (soc_ida model (q + 1) =
        soc_ida model q + power_cap / 4 *
          (cha_ida model q - dis_ida model q + cha_ida_close model q - dis_ida_close model q
             + step1_cha_daa ! (q - 1) - step1_dis_daa ! (q - 1)))"

definition ida_charge_cycle_limit ::
  "real \<Rightarrow> real \<Rightarrow> real list \<Rightarrow> real list \<Rightarrow> real list \<Rightarrow> vars_ida \<Rightarrow> bool" where
  "ida_charge_cycle_limit power_cap volume_limit ida_price_vector step1_cha_daa step1_dis_daa model =
     ((sum_list step1_cha_daa + (\<Sum>q\<leftarrow>ida_Q ida_price_vector. cha_ida model q)
         - (\<Sum>q\<leftarrow>ida_Q ida_price_vector. dis_ida_close model q)) * power_cap / 4 \<le> volume_limit)"

definition ida_discharge_cycle_limit ::
  "real \<Rightarrow> real \<Rightarrow> real list \<Rightarrow> real list \<Rightarrow> real list \<Rightarrow> vars_ida \<Rightarrow> bool" where
  "ida_discharge_cycle_limit power_cap volume_limit ida_price_vector step1_cha_daa step1_dis_daa model =
     ((sum_list step1_dis_daa + (\<Sum>q\<leftarrow>ida_Q ida_price_vector. dis_ida model q)
         - (\<Sum>q\<leftarrow>ida_Q ida_price_vector. cha_ida_close model q)) * power_cap / 4 \<le> volume_limit)"

definition ida_cha_close_logic :: "real list \<Rightarrow> vars_ida \<Rightarrow> nat \<Rightarrow> bool" where
  "ida_cha_close_logic step1_dis_daa model q = (cha_ida_close model q \<le> step1_dis_daa ! (q - 1))"

definition ida_dis_close_logic :: "real list \<Rightarrow> vars_ida \<Rightarrow> nat \<Rightarrow> bool" where
  "ida_dis_close_logic step1_cha_daa model q = (dis_ida_close model q \<le> step1_cha_daa ! (q - 1))"

definition ida_charge_rate_limit :: "real list \<Rightarrow> vars_ida \<Rightarrow> nat \<Rightarrow> bool" where
  "ida_charge_rate_limit step1_cha_daa model q = (cha_ida model q + step1_cha_daa ! (q - 1) \<le> 1)"

definition ida_discharge_rate_limit :: "real list \<Rightarrow> vars_ida \<Rightarrow> nat \<Rightarrow> bool" where
  "ida_discharge_rate_limit step1_dis_daa model q = (dis_ida model q + step1_dis_daa ! (q - 1) \<le> 1)"

definition ida_var_bounds :: "real list \<Rightarrow> vars_ida \<Rightarrow> bool" where
  "ida_var_bounds ida_price_vector model =
     (list_all (unit_bounds (cha_ida model)) (ida_Q ida_price_vector)
      \<and> list_all (unit_bounds (dis_ida model)) (ida_Q ida_price_vector)
      \<and> list_all (unit_bounds (cha_ida_close model)) (ida_Q ida_price_vector)
      \<and> list_all (unit_bounds (dis_ida_close model)) (ida_Q ida_price_vector))"

definition ida_constraints ::
  "real \<Rightarrow> real \<Rightarrow> real \<Rightarrow> real list \<Rightarrow> real list \<Rightarrow> real list \<Rightarrow> vars_ida \<Rightarrow> bool" where
  "ida_constraints n_cycles energy_cap power_cap ida_price_vector step1_cha_daa step1_dis_daa model =
     (let volume_limit = energy_cap * n_cycles in
        list_all (ida_set_maximum_soc energy_cap model) (ida_Q_plus_1 ida_price_vector)
      \<and> list_all (ida_set_minimum_soc model) (ida_Q_plus_1 ida_price_vector)
      \<and> ida_set_first_soc_to_0 model
      \<and> ida_set_last_soc_to_0 model
      \<and> list_all (ida_soc_step_constraint power_cap step1_cha_daa step1_dis_daa model) (ida_Q ida_price_vector)
      \<and> ida_charge_cycle_limit power_cap volume_limit ida_price_vector step1_cha_daa step1_dis_daa model
      \<and> ida_discharge_cycle_limit power_cap volume_limit ida_price_vector step1_cha_daa step1_dis_daa model
      \<and> list_all (ida_cha_close_logic step1_dis_daa model) (ida_Q ida_price_vector)
      \<and> list_all (ida_dis_close_logic step1_cha_daa model) (ida_Q ida_price_vector)
      \<and> list_all (ida_charge_rate_limit step1_cha_daa model) (ida_Q ida_price_vector)
      \<and> list_all (ida_discharge_rate_limit step1_dis_daa model) (ida_Q ida_price_vector))"

definition ida_feasible ::
  "real \<Rightarrow> real \<Rightarrow> real \<Rightarrow> real list \<Rightarrow> real list \<Rightarrow> real list \<Rightarrow> vars_ida \<Rightarrow> bool" where
  "ida_feasible n_cycles energy_cap power_cap ida_price_vector step1_cha_daa step1_dis_daa model =
     (ida_var_bounds ida_price_vector model
      \<and> ida_constraints n_cycles energy_cap power_cap ida_price_vector step1_cha_daa step1_dis_daa model)"

text \<open>The objective: \<^verbatim>\<open>sum(ida_price_vector[q-1] * power_cap/4 * (model.dis_ida[q] +
  model.dis_ida_close[q] - model.cha_ida[q] - model.cha_ida_close[q]) for q in model.Q)\<close>.\<close>

definition ida_obj :: "real \<Rightarrow> real list \<Rightarrow> vars_ida \<Rightarrow> real" where
  "ida_obj power_cap ida_price_vector model =
     (\<Sum>q\<leftarrow>ida_Q ida_price_vector.
        ida_price_vector ! (q - 1) * power_cap / 4 *
          (dis_ida model q + dis_ida_close model q - cha_ida model q - cha_ida_close model q))"

definition ida_model ::
  "real \<Rightarrow> real \<Rightarrow> real \<Rightarrow> real list \<Rightarrow> real list \<Rightarrow> real list \<Rightarrow> vars_ida lp" where
  "ida_model n_cycles energy_cap power_cap ida_price_vector step1_cha_daa step1_dis_daa =
     \<lparr>feasible = ida_feasible n_cycles energy_cap power_cap ida_price_vector step1_cha_daa step1_dis_daa,
      obj = ida_obj power_cap ida_price_vector\<rparr>"

text \<open>The eight values \<^verbatim>\<open>step2_optimize_ida\<close> returns (fields named as in Stage 1).\<close>

record result_ida =
  out_step2_soc_ida :: "real list"
  out_step2_cha_ida :: "real list"
  out_step2_dis_ida :: "real list"
  out_step2_cha_ida_close :: "real list"
  out_step2_dis_ida_close :: "real list"
  out_step2_profit_ida :: real
  out_step2_cha_daaida :: "real list"
  out_step2_dis_daaida :: "real list"

text \<open>
  Building the Stage 2 model. The components are constructed in the order of the
  assignments to the model. First \<^verbatim>\<open>model.H = pyo.RangeSet(0, len(ida_price_vector)/4-1)\<close>:
  a price vector of 1, 2 or 3 entries gives an end strictly between \<open>-1\<close> and 0, before
  the start, which \<^verbatim>\<open>RangeSet\<close> refuses with \<^verbatim>\<open>ValueError\<close> (an end of \<open>-1\<close>, for the
  empty price vector, is its empty range, and a fractional end past the start is rounded
  down). Then the rules: \<^verbatim>\<open>set_last_soc_to_0\<close> reads \<^verbatim>\<open>model.soc[97]\<close>, a
  \<^verbatim>\<open>KeyError\<close> when \<^verbatim>\<open>Q_plus_1\<close> ends before 97, that is when the price vector has
  fewer than 96 entries; \<^verbatim>\<open>soc_step_constraint\<close> then reads both prior lists at
  \<^verbatim>\<open>q-1\<close> for every \<^verbatim>\<open>q\<close> of \<^verbatim>\<open>Q\<close>, an \<^verbatim>\<open>IndexError\<close> when one of them is
  shorter than the price vector. The source checks nothing else about its arguments.
  (The two cycle-limit rules are passed to \<^verbatim>\<open>pyo.Constraint\<close> as
  \<^verbatim>\<open>expr=\<close> in this stage and as \<^verbatim>\<open>rule=\<close> in the other two; Pyomo reads the
  two keywords alike.)
\<close>

definition ida_build ::
  "real \<Rightarrow> real \<Rightarrow> real \<Rightarrow> real list \<Rightarrow> real list \<Rightarrow> real list \<Rightarrow> error + vars_ida lp" where
  "ida_build n_cycles energy_cap power_cap ida_price_vector step1_cha_daa step1_dis_daa =
     (if 1 \<le> length ida_price_vector \<and> length ida_price_vector \<le> 3 then Inl ValueError
      else if length ida_price_vector < 96 then Inl KeyError
      else if length step1_cha_daa < length ida_price_vector
            \<or> length step1_dis_daa < length ida_price_vector then Inl IndexError
      else Inr (ida_model n_cycles energy_cap power_cap ida_price_vector step1_cha_daa step1_dis_daa))"

text \<open>
  \<^verbatim>\<open>step2_optimize_ida\<close>. After the solve, the values are read at
  \<^verbatim>\<open>range(1, len(ida_price_vector) + 1)\<close> and returned as read; the profit is NumPy
  arithmetic on them (\<^verbatim>\<open>TypeError\<close> on \<^verbatim>\<open>None\<close>), and the combined vectors are
  NumPy arithmetic of a prior list with two lists as long as the price vector: a prior
  list that is longer cannot be broadcast (both lengths are at least 96), a
  \<^verbatim>\<open>ValueError\<close>.
\<close>

definition step2_optimize_ida ::
  "vars_ida solver \<Rightarrow> real \<Rightarrow> real \<Rightarrow> real \<Rightarrow> real list \<Rightarrow> real list \<Rightarrow> real list
     \<Rightarrow> error + result_ida" where
  "step2_optimize_ida solver n_cycles energy_cap power_cap ida_price_vector step1_cha_daa step1_dis_daa =
     (case ida_build n_cycles energy_cap power_cap ida_price_vector step1_cha_daa step1_dis_daa of
        Inl e \<Rightarrow> Inl e
      | Inr lp \<Rightarrow>
         (case solver lp of
            Raises \<Rightarrow> Inl SolverError
          | NoValues \<Rightarrow> Inl TypeError
          | Values model \<Rightarrow>
              let soc = map (soc_ida model) [1..<length ida_price_vector + 1];
                  cha = map (cha_ida model) [1..<length ida_price_vector + 1];
                  dis = map (dis_ida model) [1..<length ida_price_vector + 1];
                  cha_close = map (cha_ida_close model) [1..<length ida_price_vector + 1];
                  dis_close = map (dis_ida_close model) [1..<length ida_price_vector + 1];
                  profit =
                    sum_list (map2 (*) (map2 (-) (map2 (+) dis dis_close)
                                                 (map2 (+) cha cha_close)) ida_price_vector)
                      * power_cap / 4
              in if length step1_cha_daa \<noteq> length ida_price_vector
                    \<or> length step1_dis_daa \<noteq> length ida_price_vector then Inl ValueError
                 else Inr \<lparr>out_step2_soc_ida = soc, out_step2_cha_ida = cha,
                           out_step2_dis_ida = dis,
                           out_step2_cha_ida_close = cha_close,
                           out_step2_dis_ida_close = dis_close,
                           out_step2_profit_ida = profit,
                           out_step2_cha_daaida = map2 (+) (map2 (-) step1_cha_daa dis_close) cha,
                           out_step2_dis_daaida = map2 (+) (map2 (-) step1_dis_daa cha_close) dis\<rparr>))"

subsection \<open>Stage 3: intraday continuous trading\<close>

text \<open>
  The variables of the Stage 3 model: \<^verbatim>\<open>model.soc\<close> over \<^verbatim>\<open>Q_plus_1\<close>, and
  \<^verbatim>\<open>model.cha_idc\<close>, \<^verbatim>\<open>model.dis_idc\<close>, \<^verbatim>\<open>model.cha_idc_close\<close>,
  \<^verbatim>\<open>model.dis_idc_close\<close> over \<^verbatim>\<open>Q\<close>.
\<close>

record vars_idc =
  soc_idc :: "nat \<Rightarrow> real"
  cha_idc :: "nat \<Rightarrow> real"
  dis_idc :: "nat \<Rightarrow> real"
  cha_idc_close :: "nat \<Rightarrow> real"
  dis_idc_close :: "nat \<Rightarrow> real"

text \<open>The index sets follow the price vector: \<^verbatim>\<open>RangeSet(1,len(idc_price_vector))\<close> and
  \<^verbatim>\<open>RangeSet(1,len(idc_price_vector)+1)\<close>. (\<^verbatim>\<open>model.H\<close>, declared as
  \<^verbatim>\<open>RangeSet(0,len(idc_price_vector)/4-1)\<close>, is used by no rule of this stage; only
  whether it can be constructed matters, see the build below.)\<close>

definition idc_Q :: "real list \<Rightarrow> nat list" where
  "idc_Q idc_price_vector = [1..<length idc_price_vector + 1]"

definition idc_Q_plus_1 :: "real list \<Rightarrow> nat list" where
  "idc_Q_plus_1 idc_price_vector = [1..<length idc_price_vector + 2]"

text \<open>The constraint rules of \<^verbatim>\<open>step3_optimize_idc\<close> (constraints 3.1 to 3.11). The
  prior positions are Python lists read at \<^verbatim>\<open>q-1\<close>; \<^verbatim>\<open>np.sum\<close> adds up the whole
  list, whatever its length.\<close>

definition idc_set_maximum_soc :: "real \<Rightarrow> vars_idc \<Rightarrow> nat \<Rightarrow> bool" where
  "idc_set_maximum_soc energy_cap model q = (soc_idc model q \<le> energy_cap)"

definition idc_set_minimum_soc :: "vars_idc \<Rightarrow> nat \<Rightarrow> bool" where
  "idc_set_minimum_soc model q = (soc_idc model q \<ge> 0)"

definition idc_set_first_soc_to_0 :: "vars_idc \<Rightarrow> bool" where
  "idc_set_first_soc_to_0 model = (soc_idc model 1 = 0)"

definition idc_set_last_soc_to_0 :: "vars_idc \<Rightarrow> bool" where
  "idc_set_last_soc_to_0 model = (soc_idc model 97 = 0)"

definition idc_soc_step_constraint ::
  "real \<Rightarrow> real list \<Rightarrow> real list \<Rightarrow> vars_idc \<Rightarrow> nat \<Rightarrow> bool" where
  "idc_soc_step_constraint power_cap step2_cha_daaida step2_dis_daaida model q =
     (soc_idc model (q + 1) =
        soc_idc model q + power_cap / 4 *
          (cha_idc model q - dis_idc model q + cha_idc_close model q - dis_idc_close model q
             + step2_cha_daaida ! (q - 1) - step2_dis_daaida ! (q - 1)))"

text \<open>In Stage 3 the rule named \<^verbatim>\<open>charge_cycle_limit\<close> bounds the discharges and the
  rule named \<^verbatim>\<open>discharge_cycle_limit\<close> bounds the charges; both are applied.\<close>

definition idc_charge_cycle_limit ::
  "real \<Rightarrow> real \<Rightarrow> real list \<Rightarrow> real list \<Rightarrow> real list \<Rightarrow> vars_idc \<Rightarrow> bool" where
  "idc_charge_cycle_limit power_cap volume_limit idc_price_vector step2_cha_daaida step2_dis_daaida model =
     ((sum_list step2_dis_daaida + (\<Sum>q\<leftarrow>idc_Q idc_price_vector. dis_idc model q)
         - (\<Sum>q\<leftarrow>idc_Q idc_price_vector. cha_idc_close model q)) * power_cap / 4 \<le> volume_limit)"

definition idc_discharge_cycle_limit ::
  "real \<Rightarrow> real \<Rightarrow> real list \<Rightarrow> real list \<Rightarrow> real list \<Rightarrow> vars_idc \<Rightarrow> bool" where
  "idc_discharge_cycle_limit power_cap volume_limit idc_price_vector step2_cha_daaida step2_dis_daaida model =
     ((sum_list step2_cha_daaida + (\<Sum>q\<leftarrow>idc_Q idc_price_vector. cha_idc model q)
         - (\<Sum>q\<leftarrow>idc_Q idc_price_vector. dis_idc_close model q)) * power_cap / 4 \<le> volume_limit)"

definition idc_cha_close_logic :: "real list \<Rightarrow> vars_idc \<Rightarrow> nat \<Rightarrow> bool" where
  "idc_cha_close_logic step2_dis_daaida model q = (cha_idc_close model q \<le> step2_dis_daaida ! (q - 1))"

definition idc_dis_close_logic :: "real list \<Rightarrow> vars_idc \<Rightarrow> nat \<Rightarrow> bool" where
  "idc_dis_close_logic step2_cha_daaida model q = (dis_idc_close model q \<le> step2_cha_daaida ! (q - 1))"

definition idc_charge_rate_limit :: "real list \<Rightarrow> vars_idc \<Rightarrow> nat \<Rightarrow> bool" where
  "idc_charge_rate_limit step2_cha_daaida model q = (cha_idc model q + step2_cha_daaida ! (q - 1) \<le> 1)"

definition idc_discharge_rate_limit :: "real list \<Rightarrow> vars_idc \<Rightarrow> nat \<Rightarrow> bool" where
  "idc_discharge_rate_limit step2_dis_daaida model q = (dis_idc model q + step2_dis_daaida ! (q - 1) \<le> 1)"

definition idc_var_bounds :: "real list \<Rightarrow> vars_idc \<Rightarrow> bool" where
  "idc_var_bounds idc_price_vector model =
     (list_all (unit_bounds (cha_idc model)) (idc_Q idc_price_vector)
      \<and> list_all (unit_bounds (dis_idc model)) (idc_Q idc_price_vector)
      \<and> list_all (unit_bounds (cha_idc_close model)) (idc_Q idc_price_vector)
      \<and> list_all (unit_bounds (dis_idc_close model)) (idc_Q idc_price_vector))"

definition idc_constraints ::
  "real \<Rightarrow> real \<Rightarrow> real \<Rightarrow> real list \<Rightarrow> real list \<Rightarrow> real list \<Rightarrow> vars_idc \<Rightarrow> bool" where
  "idc_constraints n_cycles energy_cap power_cap idc_price_vector step2_cha_daaida step2_dis_daaida model =
     (let volume_limit = energy_cap * n_cycles in
        list_all (idc_set_maximum_soc energy_cap model) (idc_Q_plus_1 idc_price_vector)
      \<and> list_all (idc_set_minimum_soc model) (idc_Q_plus_1 idc_price_vector)
      \<and> idc_set_first_soc_to_0 model
      \<and> idc_set_last_soc_to_0 model
      \<and> list_all (idc_soc_step_constraint power_cap step2_cha_daaida step2_dis_daaida model) (idc_Q idc_price_vector)
      \<and> idc_charge_cycle_limit power_cap volume_limit idc_price_vector step2_cha_daaida step2_dis_daaida model
      \<and> idc_discharge_cycle_limit power_cap volume_limit idc_price_vector step2_cha_daaida step2_dis_daaida model
      \<and> list_all (idc_cha_close_logic step2_dis_daaida model) (idc_Q idc_price_vector)
      \<and> list_all (idc_dis_close_logic step2_cha_daaida model) (idc_Q idc_price_vector)
      \<and> list_all (idc_charge_rate_limit step2_cha_daaida model) (idc_Q idc_price_vector)
      \<and> list_all (idc_discharge_rate_limit step2_dis_daaida model) (idc_Q idc_price_vector))"

definition idc_feasible ::
  "real \<Rightarrow> real \<Rightarrow> real \<Rightarrow> real list \<Rightarrow> real list \<Rightarrow> real list \<Rightarrow> vars_idc \<Rightarrow> bool" where
  "idc_feasible n_cycles energy_cap power_cap idc_price_vector step2_cha_daaida step2_dis_daaida model =
     (idc_var_bounds idc_price_vector model
      \<and> idc_constraints n_cycles energy_cap power_cap idc_price_vector step2_cha_daaida step2_dis_daaida model)"

text \<open>The objective: \<^verbatim>\<open>sum(idc_price_vector[q-1] * power_cap/4 * (model.dis_idc[q] +
  model.dis_idc_close[q] - model.cha_idc[q] - model.cha_idc_close[q]) for q in model.Q)\<close>.\<close>

definition idc_obj :: "real \<Rightarrow> real list \<Rightarrow> vars_idc \<Rightarrow> real" where
  "idc_obj power_cap idc_price_vector model =
     (\<Sum>q\<leftarrow>idc_Q idc_price_vector.
        idc_price_vector ! (q - 1) * power_cap / 4 *
          (dis_idc model q + dis_idc_close model q - cha_idc model q - cha_idc_close model q))"

definition idc_model ::
  "real \<Rightarrow> real \<Rightarrow> real \<Rightarrow> real list \<Rightarrow> real list \<Rightarrow> real list \<Rightarrow> vars_idc lp" where
  "idc_model n_cycles energy_cap power_cap idc_price_vector step2_cha_daaida step2_dis_daaida =
     \<lparr>feasible = idc_feasible n_cycles energy_cap power_cap idc_price_vector step2_cha_daaida step2_dis_daaida,
      obj = idc_obj power_cap idc_price_vector\<rparr>"

text \<open>The eight values \<^verbatim>\<open>step3_optimize_idc\<close> returns (fields named as in Stage 1).\<close>

record result_idc =
  out_step3_soc_idc :: "real list"
  out_step3_cha_idc :: "real list"
  out_step3_dis_idc :: "real list"
  out_step3_cha_idc_close :: "real list"
  out_step3_dis_idc_close :: "real list"
  out_step3_profit_idc :: real
  out_step3_cha_daaidaidc :: "real list"
  out_step3_dis_daaidaidc :: "real list"

text \<open>
  Building the Stage 3 model. The components are constructed in the order of the
  assignments to the model. First \<^verbatim>\<open>model.H = pyo.RangeSet(0, len(idc_price_vector)/4-1)\<close>:
  a price vector of 1, 2 or 3 entries gives an end strictly between \<open>-1\<close> and 0, before
  the start, which \<^verbatim>\<open>RangeSet\<close> refuses with \<^verbatim>\<open>ValueError\<close> (an end of \<open>-1\<close>, for the
  empty price vector, is its empty range, and a fractional end past the start is rounded
  down). Then the rules: \<^verbatim>\<open>set_last_soc_to_0\<close> reads \<^verbatim>\<open>model.soc[97]\<close>, a
  \<^verbatim>\<open>KeyError\<close> when \<^verbatim>\<open>Q_plus_1\<close> ends before 97, that is when the price vector has
  fewer than 96 entries; \<^verbatim>\<open>soc_step_constraint\<close> then reads both prior lists at
  \<^verbatim>\<open>q-1\<close> for every \<^verbatim>\<open>q\<close> of \<^verbatim>\<open>Q\<close>, an \<^verbatim>\<open>IndexError\<close> when one of them is
  shorter than the price vector. The source checks nothing else about its arguments.
\<close>

definition idc_build ::
  "real \<Rightarrow> real \<Rightarrow> real \<Rightarrow> real list \<Rightarrow> real list \<Rightarrow> real list \<Rightarrow> error + vars_idc lp" where
  "idc_build n_cycles energy_cap power_cap idc_price_vector step2_cha_daaida step2_dis_daaida =
     (if 1 \<le> length idc_price_vector \<and> length idc_price_vector \<le> 3 then Inl ValueError
      else if length idc_price_vector < 96 then Inl KeyError
      else if length step2_cha_daaida < length idc_price_vector
            \<or> length step2_dis_daaida < length idc_price_vector then Inl IndexError
      else Inr (idc_model n_cycles energy_cap power_cap idc_price_vector step2_cha_daaida step2_dis_daaida))"

text \<open>
  \<^verbatim>\<open>step3_optimize_idc\<close>. After the solve, the values are read at
  \<^verbatim>\<open>range(1, len(idc_price_vector) + 1)\<close> and returned as read; the profit is NumPy
  arithmetic on them (\<^verbatim>\<open>TypeError\<close> on \<^verbatim>\<open>None\<close>), and the combined vectors are
  NumPy arithmetic of a prior list with two lists as long as the price vector: a prior
  list that is longer cannot be broadcast (both lengths are at least 96), a
  \<^verbatim>\<open>ValueError\<close>.
\<close>

definition step3_optimize_idc ::
  "vars_idc solver \<Rightarrow> real \<Rightarrow> real \<Rightarrow> real \<Rightarrow> real list \<Rightarrow> real list \<Rightarrow> real list
     \<Rightarrow> error + result_idc" where
  "step3_optimize_idc solver n_cycles energy_cap power_cap idc_price_vector step2_cha_daaida step2_dis_daaida =
     (case idc_build n_cycles energy_cap power_cap idc_price_vector step2_cha_daaida step2_dis_daaida of
        Inl e \<Rightarrow> Inl e
      | Inr lp \<Rightarrow>
         (case solver lp of
            Raises \<Rightarrow> Inl SolverError
          | NoValues \<Rightarrow> Inl TypeError
          | Values model \<Rightarrow>
              let soc = map (soc_idc model) [1..<length idc_price_vector + 1];
                  cha = map (cha_idc model) [1..<length idc_price_vector + 1];
                  dis = map (dis_idc model) [1..<length idc_price_vector + 1];
                  cha_close = map (cha_idc_close model) [1..<length idc_price_vector + 1];
                  dis_close = map (dis_idc_close model) [1..<length idc_price_vector + 1];
                  profit =
                    sum_list (map2 (*) (map2 (-) (map2 (+) dis dis_close)
                                                 (map2 (+) cha cha_close)) idc_price_vector)
                      * power_cap / 4
              in if length step2_cha_daaida \<noteq> length idc_price_vector
                    \<or> length step2_dis_daaida \<noteq> length idc_price_vector then Inl ValueError
                 else Inr \<lparr>out_step3_soc_idc = soc, out_step3_cha_idc = cha,
                           out_step3_dis_idc = dis,
                           out_step3_cha_idc_close = cha_close,
                           out_step3_dis_idc_close = dis_close,
                           out_step3_profit_idc = profit,
                           out_step3_cha_daaidaidc = map2 (+) (map2 (-) step2_cha_daaida dis_close) cha,
                           out_step3_dis_daaidaidc = map2 (+) (map2 (-) step2_dis_daaida cha_close) dis\<rparr>))"

subsection \<open>Stage 3 assignments read as Stage 2 assignments\<close>

text \<open>The two later stages name their variables after their markets. The renaming below
  reads an assignment of the Stage 3 variables as one of the Stage 2 variables, and back.\<close>

definition as_ida :: "vars_idc \<Rightarrow> vars_ida" where
  "as_ida m = \<lparr>soc_ida = soc_idc m, cha_ida = cha_idc m, dis_ida = dis_idc m,
               cha_ida_close = cha_idc_close m, dis_ida_close = dis_idc_close m\<rparr>"

definition as_idc :: "vars_ida \<Rightarrow> vars_idc" where
  "as_idc m = \<lparr>soc_idc = soc_ida m, cha_idc = cha_ida m, dis_idc = dis_ida m,
               cha_idc_close = cha_ida_close m, dis_idc_close = dis_ida_close m\<rparr>"

subsection \<open>Concrete inputs\<close>

text \<open>
  The inputs the closed theorems below are evaluated at. All use the battery of the spec's
  scenario where they need one: \<^verbatim>\<open>n_cycles = 1\<close>, \<^verbatim>\<open>energy_cap = 4\<close>,
  \<^verbatim>\<open>power_cap = 4\<close>, so that a position of 1 moves one unit of energy per quarter.

  \<open>ex_daa\<close> charges a quarter of the power in each quarter of hour 0 and discharges all of
  it in quarter 5 alone. \<open>ex_price_daa\<close> is a day-ahead price that is 10 in quarter 5 and
  0 elsewhere.
\<close>

definition ex_daa :: vars_daa where
  "ex_daa = \<lparr>soc_daa = (\<lambda>q. if q \<le> 5 then real (q - 1) / 4 else 0),
             cha_daa = (\<lambda>q. if q \<le> 4 then 1 / 4 else 0),
             dis_daa = (\<lambda>q. if q = 5 then 1 else 0)\<rparr>"

definition ex_price_daa :: "real list" where
  "ex_price_daa = replicate 4 0 @ [10] @ replicate 91 0"

definition zero_daa :: vars_daa where
  "zero_daa = \<lparr>soc_daa = (\<lambda>q. 0), cha_daa = (\<lambda>q. 0), dis_daa = (\<lambda>q. 0)\<rparr>"

text \<open>\<open>idle_daa\<close> trades in every quarter and leaves the state of charge at 0.\<close>

definition idle_daa :: vars_daa where
  "idle_daa = \<lparr>soc_daa = (\<lambda>q. 0), cha_daa = (\<lambda>q. 1), dis_daa = (\<lambda>q. 0)\<rparr>"

text \<open>
  \<open>noisy_daa\<close> is the optimum of the spec's two-hour scenario (charge in hour 0 at price 2,
  discharge in hour 1 at price 6) with the charge of hour 0 off by \<open>10\<^sup>-\<^sup>9\<close>, as a solver's
  rounding leaves it. \<open>ex_price_2h\<close> is the scenario's price vector.
\<close>

definition noisy_daa :: vars_daa where
  "noisy_daa = \<lparr>soc_daa = (\<lambda>q. if q \<le> 5 then real (q - 1) else if q \<le> 9 then real (9 - q) else 0),
                cha_daa = (\<lambda>q. if q \<le> 4 then 1 + 1 / 10 ^ 9 else 0),
                dis_daa = (\<lambda>q. if 5 \<le> q \<and> q \<le> 8 then 1 else 0)\<rparr>"

definition ex_price_2h :: "real list" where
  "ex_price_2h = replicate 4 2 @ replicate 4 6 @ replicate 88 0"

text \<open>
  The prior positions of the later stages' examples are the optimum of that scenario:
  charged in quarters 1 to 4, discharged in quarters 5 to 8. \<open>ex_ida\<close> opens nothing new;
  it closes half of the prior charge of quarter 1 and half of the prior discharge of
  quarter 5. \<open>ex_idc\<close> is the same assignment of the Stage 3 variables.
\<close>

definition ex_prior_cha :: "real list" where
  "ex_prior_cha = replicate 4 1 @ replicate 92 0"

definition ex_prior_dis :: "real list" where
  "ex_prior_dis = replicate 4 0 @ replicate 4 1 @ replicate 88 0"

definition ex_price_0 :: "real list" where
  "ex_price_0 = replicate 96 0"

definition ex_ida :: vars_ida where
  "ex_ida = \<lparr>soc_ida = (\<lambda>q. if q \<le> 1 then 0 else if q \<le> 5 then real q - 3 / 2
                          else if q \<le> 9 then real (9 - q) else 0),
             cha_ida = (\<lambda>q. 0),
             dis_ida = (\<lambda>q. 0),
             cha_ida_close = (\<lambda>q. if q = 5 then 1 / 2 else 0),
             dis_ida_close = (\<lambda>q. if q = 1 then 1 / 2 else 0)\<rparr>"

definition ex_idc :: vars_idc where
  "ex_idc = as_idc ex_ida"



text \<open>What Stage 1 returns when the solver leaves \<open>ex_daa\<close> in the model and the price is
  \<open>ex_price_daa\<close>.\<close>

definition ex_result_daa :: result_daa where
  "ex_result_daa =
     \<lparr>out_step1_soc_daa = [0, 1 / 4, 1 / 2, 3 / 4, 1] @ replicate 91 0,
      out_step1_cha_daa = replicate 4 (1 / 4) @ replicate 92 0,
      out_step1_dis_daa = replicate 4 0 @ [1] @ replicate 91 0,
      out_step1_profit_daa = 10\<rparr>"

text \<open>
  What Stage 2 returns when the solver leaves \<open>ex_ida\<close> in the model, and Stage 3 when
  it leaves \<open>ex_idc\<close>: the values read back, a profit of 0 at the price 0, and the
  combined positions.
\<close>

definition ex_result_ida :: result_ida where
  "ex_result_ida =
     \<lparr>out_step2_soc_ida = [0, 1 / 2, 3 / 2, 5 / 2, 7 / 2, 3, 2, 1] @ replicate 88 0,
      out_step2_cha_ida = replicate 96 0,
      out_step2_dis_ida = replicate 96 0,
      out_step2_cha_ida_close = replicate 4 0 @ [1 / 2] @ replicate 91 0,
      out_step2_dis_ida_close = [1 / 2] @ replicate 95 0,
      out_step2_profit_ida = 0,
      out_step2_cha_daaida = [1 / 2, 1, 1, 1] @ replicate 92 0,
      out_step2_dis_daaida = replicate 4 0 @ [1 / 2, 1, 1, 1] @ replicate 88 0\<rparr>"

definition ex_result_idc :: result_idc where
  "ex_result_idc =
     \<lparr>out_step3_soc_idc = [0, 1 / 2, 3 / 2, 5 / 2, 7 / 2, 3, 2, 1] @ replicate 88 0,
      out_step3_cha_idc = replicate 96 0,
      out_step3_dis_idc = replicate 96 0,
      out_step3_cha_idc_close = replicate 4 0 @ [1 / 2] @ replicate 91 0,
      out_step3_dis_idc_close = [1 / 2] @ replicate 95 0,
      out_step3_profit_idc = 0,
      out_step3_cha_daaidaidc = [1 / 2, 1, 1, 1] @ replicate 92 0,
      out_step3_dis_daaidaidc = replicate 4 0 @ [1 / 2, 1, 1, 1] @ replicate 88 0\<rparr>"

section \<open>Properties\<close>

subsection \<open>Reading a model's constraints\<close>

lemma list_all_upt: "list_all P [a..<b] = (\<forall>q. a \<le> q \<and> q < b \<longrightarrow> P q)"
  by (auto simp: list_all_iff)

lemma list_all_upt_Suc: "list_all P [1..<n + 1] = (\<forall>q. 1 \<le> q \<and> q \<le> n \<longrightarrow> P q)"
  unfolding list_all_iff by (auto simp del: upt_Suc)

lemma list_all_daa_Q: "list_all P daa_Q = (\<forall>q. 1 \<le> q \<and> q \<le> 96 \<longrightarrow> P q)"
  unfolding daa_Q_def list_all_iff by auto

lemma list_all_daa_Q_plus_1: "list_all P daa_Q_plus_1 = (\<forall>q. 1 \<le> q \<and> q \<le> 97 \<longrightarrow> P q)"
  unfolding daa_Q_plus_1_def list_all_iff by auto

lemma list_all_ida_Q: "list_all P (ida_Q price) = (\<forall>q. 1 \<le> q \<and> q \<le> length price \<longrightarrow> P q)"
  unfolding ida_Q_def by (rule list_all_upt_Suc)

lemma list_all_idc_Q: "list_all P (idc_Q price) = (\<forall>q. 1 \<le> q \<and> q \<le> length price \<longrightarrow> P q)"
  unfolding idc_Q_def by (rule list_all_upt_Suc)

lemma daa_build_Inr:
  assumes "daa_build n_cycles energy_cap power_cap price = Inr lp"
  shows "lp = daa_model n_cycles energy_cap power_cap price" and "96 \<le> length price"
  using assms by (auto simp: daa_build_def split: if_splits)

lemma ida_build_Inr:
  assumes "ida_build n_cycles energy_cap power_cap price prior_cha prior_dis = Inr lp"
  shows "lp = ida_model n_cycles energy_cap power_cap price prior_cha prior_dis"
    and "96 \<le> length price" and "length price \<le> length prior_cha"
    and "length price \<le> length prior_dis"
  using assms by (auto simp: ida_build_def split: if_splits)

lemma idc_build_Inr:
  assumes "idc_build n_cycles energy_cap power_cap price prior_cha prior_dis = Inr lp"
  shows "lp = idc_model n_cycles energy_cap power_cap price prior_cha prior_dis"
    and "96 \<le> length price" and "length price \<le> length prior_cha"
    and "length price \<le> length prior_dis"
  using assms by (auto simp: idc_build_def split: if_splits)

lemma feasible_daa_model [simp]:
  "feasible (daa_model n_cycles energy_cap power_cap price) = daa_feasible n_cycles energy_cap power_cap"
  by (simp add: daa_model_def)

lemma feasible_ida_model [simp]:
  "feasible (ida_model n_cycles energy_cap power_cap price prior_cha prior_dis)
     = ida_feasible n_cycles energy_cap power_cap price prior_cha prior_dis"
  by (simp add: ida_model_def)

lemma feasible_idc_model [simp]:
  "feasible (idc_model n_cycles energy_cap power_cap price prior_cha prior_dis)
     = idc_feasible n_cycles energy_cap power_cap price prior_cha prior_dis"
  by (simp add: idc_model_def)

subsection \<open>The concrete inputs are what they are said to be\<close>

lemma ex_daa_feasible: "daa_feasible 1 4 4 ex_daa"
  by code_simp

lemma ex_ida_feasible: "ida_feasible 1 4 4 ex_price_0 ex_prior_cha ex_prior_dis ex_ida"
  by code_simp

lemma ex_idc_feasible: "idc_feasible 1 4 4 ex_price_0 ex_prior_cha ex_prior_dis ex_idc"
  by code_simp

lemma ex_daa_built: "daa_build 1 4 4 ex_price_daa = Inr (daa_model 1 4 4 ex_price_daa)"
  by (simp add: daa_build_def ex_price_daa_def)

lemma ex_ida_built:
  "ida_build 1 4 4 ex_price_0 ex_prior_cha ex_prior_dis
     = Inr (ida_model 1 4 4 ex_price_0 ex_prior_cha ex_prior_dis)"
  by (simp add: ida_build_def ex_price_0_def ex_prior_cha_def ex_prior_dis_def)

lemma ex_idc_built:
  "idc_build 1 4 4 ex_price_0 ex_prior_cha ex_prior_dis
     = Inr (idc_model 1 4 4 ex_price_0 ex_prior_cha ex_prior_dis)"
  by (simp add: idc_build_def ex_price_0_def ex_prior_cha_def ex_prior_dis_def)

lemma ex_ida_returned:
  "step2_optimize_ida (\<lambda>lp. Values ex_ida) 1 4 4 ex_price_0 ex_prior_cha ex_prior_dis
     = Inr ex_result_ida"
  by code_simp

lemma ex_idc_returned:
  "step3_optimize_idc (\<lambda>lp. Values ex_idc) 1 4 4 ex_price_0 ex_prior_cha ex_prior_dis
     = Inr ex_result_idc"
  by code_simp

lemma ex_priors_unit:
  "length ex_price_0 = 96" "length ex_prior_cha = 96" "length ex_prior_dis = 96"
  "list_all (\<lambda>x. 0 \<le> x \<and> x \<le> 1) ex_prior_cha"
  "list_all (\<lambda>x. 0 \<le> x \<and> x \<le> 1) ex_prior_dis"
  by (simp_all add: ex_price_0_def ex_prior_cha_def ex_prior_dis_def list_all_iff)

subsection \<open>The state-of-charge step\<close>

text \<open>
  C2. In the model each stage builds, every feasible assignment satisfies the
  state-of-charge step as an equality, for every quarter \<open>q\<close> from 1 to 96: in Stage 1
  \<open>soc[q+1] = soc[q] + (power_cap/4) * (charge[q] - discharge[q])\<close>, in Stages 2 and 3 with
  the closing variables and the prior positions added to the net flow.
\<close>

theorem soc_step_exact:
  "(daa_build n_cycles energy_cap power_cap price = Inr lp1 \<and> feasible lp1 m1 \<longrightarrow>
      (\<forall>q. 1 \<le> q \<and> q \<le> 96 \<longrightarrow>
         soc_daa m1 (q + 1) = soc_daa m1 q + power_cap / 4 * (cha_daa m1 q - dis_daa m1 q)))
   \<and> (ida_build n_cycles energy_cap power_cap price prior_cha prior_dis = Inr lp2
        \<and> feasible lp2 m2 \<longrightarrow>
      (\<forall>q. 1 \<le> q \<and> q \<le> 96 \<longrightarrow>
         soc_ida m2 (q + 1) = soc_ida m2 q + power_cap / 4 *
           (cha_ida m2 q - dis_ida m2 q + cha_ida_close m2 q - dis_ida_close m2 q
              + prior_cha ! (q - 1) - prior_dis ! (q - 1))))
   \<and> (idc_build n_cycles energy_cap power_cap price prior_cha prior_dis = Inr lp3
        \<and> feasible lp3 m3 \<longrightarrow>
      (\<forall>q. 1 \<le> q \<and> q \<le> 96 \<longrightarrow>
         soc_idc m3 (q + 1) = soc_idc m3 q + power_cap / 4 *
           (cha_idc m3 q - dis_idc m3 q + cha_idc_close m3 q - dis_idc_close m3 q
              + prior_cha ! (q - 1) - prior_dis ! (q - 1))))"
proof (intro conjI impI allI)
  fix q :: nat
  assume b: "daa_build n_cycles energy_cap power_cap price = Inr lp1 \<and> feasible lp1 m1"
    and q: "1 \<le> q \<and> q \<le> 96"
  from b have "daa_feasible n_cycles energy_cap power_cap m1"
    by (auto dest: daa_build_Inr(1))
  then have "list_all (daa_soc_step_constraint power_cap m1) daa_Q"
    by (simp add: daa_feasible_def daa_constraints_def Let_def)
  with q have "daa_soc_step_constraint power_cap m1 q"
    by (simp add: list_all_daa_Q)
  then show "soc_daa m1 (q + 1) = soc_daa m1 q + power_cap / 4 * (cha_daa m1 q - dis_daa m1 q)"
    by (simp add: daa_soc_step_constraint_def algebra_simps)
next
  fix q :: nat
  assume b: "ida_build n_cycles energy_cap power_cap price prior_cha prior_dis = Inr lp2
      \<and> feasible lp2 m2"
    and q: "1 \<le> q \<and> q \<le> 96"
  from b have f: "ida_feasible n_cycles energy_cap power_cap price prior_cha prior_dis m2"
    and n: "96 \<le> length price"
    by (auto dest: ida_build_Inr)
  from f have "list_all (ida_soc_step_constraint power_cap prior_cha prior_dis m2) (ida_Q price)"
    by (simp add: ida_feasible_def ida_constraints_def Let_def)
  with q n have "ida_soc_step_constraint power_cap prior_cha prior_dis m2 q"
    by (simp add: list_all_ida_Q)
  then show "soc_ida m2 (q + 1) = soc_ida m2 q + power_cap / 4 *
           (cha_ida m2 q - dis_ida m2 q + cha_ida_close m2 q - dis_ida_close m2 q
              + prior_cha ! (q - 1) - prior_dis ! (q - 1))"
    by (simp add: ida_soc_step_constraint_def)
next
  fix q :: nat
  assume b: "idc_build n_cycles energy_cap power_cap price prior_cha prior_dis = Inr lp3
      \<and> feasible lp3 m3"
    and q: "1 \<le> q \<and> q \<le> 96"
  from b have f: "idc_feasible n_cycles energy_cap power_cap price prior_cha prior_dis m3"
    and n: "96 \<le> length price"
    by (auto dest: idc_build_Inr)
  from f have "list_all (idc_soc_step_constraint power_cap prior_cha prior_dis m3) (idc_Q price)"
    by (simp add: idc_feasible_def idc_constraints_def Let_def)
  with q n have "idc_soc_step_constraint power_cap prior_cha prior_dis m3 q"
    by (simp add: list_all_idc_Q)
  then show "soc_idc m3 (q + 1) = soc_idc m3 q + power_cap / 4 *
           (cha_idc m3 q - dis_idc m3 q + cha_idc_close m3 q - dis_idc_close m3 q
              + prior_cha ! (q - 1) - prior_dis ! (q - 1))"
    by (simp add: idc_soc_step_constraint_def)
qed

theorem soc_step_exact_witness:
  "(daa_build 1 4 4 ex_price_daa = Inr (daa_model 1 4 4 ex_price_daa)
      \<and> feasible (daa_model 1 4 4 ex_price_daa) ex_daa)
   \<and> list_all (\<lambda>q. soc_daa ex_daa (q + 1)
                     = soc_daa ex_daa q + 4 / 4 * (cha_daa ex_daa q - dis_daa ex_daa q)) [1..<97]
   \<and> (ida_build 1 4 4 ex_price_0 ex_prior_cha ex_prior_dis
         = Inr (ida_model 1 4 4 ex_price_0 ex_prior_cha ex_prior_dis)
      \<and> feasible (ida_model 1 4 4 ex_price_0 ex_prior_cha ex_prior_dis) ex_ida)
   \<and> list_all (\<lambda>q. soc_ida ex_ida (q + 1) = soc_ida ex_ida q + 4 / 4 *
           (cha_ida ex_ida q - dis_ida ex_ida q + cha_ida_close ex_ida q - dis_ida_close ex_ida q
              + ex_prior_cha ! (q - 1) - ex_prior_dis ! (q - 1))) [1..<97]
   \<and> (idc_build 1 4 4 ex_price_0 ex_prior_cha ex_prior_dis
         = Inr (idc_model 1 4 4 ex_price_0 ex_prior_cha ex_prior_dis)
      \<and> feasible (idc_model 1 4 4 ex_price_0 ex_prior_cha ex_prior_dis) ex_idc)
   \<and> list_all (\<lambda>q. soc_idc ex_idc (q + 1) = soc_idc ex_idc q + 4 / 4 *
           (cha_idc ex_idc q - dis_idc ex_idc q + cha_idc_close ex_idc q - dis_idc_close ex_idc q
              + ex_prior_cha ! (q - 1) - ex_prior_dis ! (q - 1))) [1..<97]"
proof -
  have h1: "daa_build 1 4 4 ex_price_daa = Inr (daa_model 1 4 4 ex_price_daa)
      \<and> feasible (daa_model 1 4 4 ex_price_daa) ex_daa"
    using ex_daa_built ex_daa_feasible by simp
  have h2: "ida_build 1 4 4 ex_price_0 ex_prior_cha ex_prior_dis
         = Inr (ida_model 1 4 4 ex_price_0 ex_prior_cha ex_prior_dis)
      \<and> feasible (ida_model 1 4 4 ex_price_0 ex_prior_cha ex_prior_dis) ex_ida"
    using ex_ida_built ex_ida_feasible by simp
  have h3: "idc_build 1 4 4 ex_price_0 ex_prior_cha ex_prior_dis
         = Inr (idc_model 1 4 4 ex_price_0 ex_prior_cha ex_prior_dis)
      \<and> feasible (idc_model 1 4 4 ex_price_0 ex_prior_cha ex_prior_dis) ex_idc"
    using ex_idc_built ex_idc_feasible by simp
  note t = soc_step_exact [of 1 4 4 ex_price_daa "daa_model 1 4 4 ex_price_daa" ex_daa]
  note u = soc_step_exact [of 1 4 4 ex_price_0 _ _ ex_prior_cha ex_prior_dis
      "ida_model 1 4 4 ex_price_0 ex_prior_cha ex_prior_dis" ex_ida
      "idc_model 1 4 4 ex_price_0 ex_prior_cha ex_prior_dis" ex_idc]
  from t h1 have c1: "list_all (\<lambda>q. soc_daa ex_daa (q + 1)
                     = soc_daa ex_daa q + 4 / 4 * (cha_daa ex_daa q - dis_daa ex_daa q)) [1..<97]"
    unfolding list_all_upt by auto
  from u h2 have c2: "list_all (\<lambda>q. soc_ida ex_ida (q + 1) = soc_ida ex_ida q + 4 / 4 *
           (cha_ida ex_ida q - dis_ida ex_ida q + cha_ida_close ex_ida q - dis_ida_close ex_ida q
              + ex_prior_cha ! (q - 1) - ex_prior_dis ! (q - 1))) [1..<97]"
    unfolding list_all_upt by auto
  from u h3 have c3: "list_all (\<lambda>q. soc_idc ex_idc (q + 1) = soc_idc ex_idc q + 4 / 4 *
           (cha_idc ex_idc q - dis_idc ex_idc q + cha_idc_close ex_idc q - dis_idc_close ex_idc q
              + ex_prior_cha ! (q - 1) - ex_prior_dis ! (q - 1))) [1..<97]"
    unfolding list_all_upt by auto
  from h1 h2 h3 c1 c2 c3 show ?thesis by blast
qed

subsection \<open>The cycle budget\<close>

lemma ida_feasibleD:
  assumes "ida_feasible n_cycles energy_cap power_cap price prior_cha prior_dis m"
  shows "ida_var_bounds price m"
    and "ida_constraints n_cycles energy_cap power_cap price prior_cha prior_dis m"
  using assms by (simp_all add: ida_feasible_def)

lemma idc_feasibleD:
  assumes "idc_feasible n_cycles energy_cap power_cap price prior_cha prior_dis m"
  shows "idc_var_bounds price m"
    and "idc_constraints n_cycles energy_cap power_cap price prior_cha prior_dis m"
  using assms by (simp_all add: idc_feasible_def)

lemma daa_feasibleD:
  assumes "daa_feasible n_cycles energy_cap power_cap m"
  shows "daa_var_bounds m" and "daa_constraints n_cycles energy_cap power_cap m"
  using assms by (simp_all add: daa_feasible_def)

lemma daa_built_constraints:
  assumes "daa_build n_cycles energy_cap power_cap price = Inr lp \<and> feasible lp m"
  shows "daa_var_bounds m" and "daa_constraints n_cycles energy_cap power_cap m"
  using assms by (auto dest: daa_build_Inr(1) simp: daa_feasible_def)

lemma ida_built_constraints:
  assumes "ida_build n_cycles energy_cap power_cap price prior_cha prior_dis = Inr lp
    \<and> feasible lp m"
  shows "ida_var_bounds price m"
    and "ida_constraints n_cycles energy_cap power_cap price prior_cha prior_dis m"
  using assms by (auto dest: ida_build_Inr(1) simp: ida_feasible_def)

lemma idc_built_constraints:
  assumes "idc_build n_cycles energy_cap power_cap price prior_cha prior_dis = Inr lp
    \<and> feasible lp m"
  shows "idc_var_bounds price m"
    and "idc_constraints n_cycles energy_cap power_cap price prior_cha prior_dis m"
  using assms by (auto dest: idc_build_Inr(1) simp: idc_feasible_def)

lemma sum_list_times_const: "(\<Sum>q\<leftarrow>qs. f q * c / 4) = (\<Sum>q\<leftarrow>qs. f q) * (c / (4::real))"
  by (induction qs) (simp_all add: algebra_simps)

text \<open>
  C4. In the model each stage builds, every feasible assignment satisfies both
  cycle-budget inequalities: the prior charges plus the new charges minus the
  discharge-closes, times \<open>power_cap/4\<close>, are at most \<open>energy_cap * n_cycles\<close>, and the
  same holds of the discharges with the charge-closes. (Stage 1 has no prior position and
  no closing variable. In Stage 3 the budget of the charges is the rule named
  \<^verbatim>\<open>discharge_cycle_limit\<close> and the budget of the discharges the rule named
  \<^verbatim>\<open>charge_cycle_limit\<close>.)
\<close>

theorem cycle_budget_respected:
  "(daa_build n_cycles energy_cap power_cap price = Inr lp1 \<and> feasible lp1 m1 \<longrightarrow>
      (\<Sum>q\<leftarrow>[1..<97]. cha_daa m1 q) * (power_cap / 4) \<le> energy_cap * n_cycles
      \<and> (\<Sum>q\<leftarrow>[1..<97]. dis_daa m1 q) * (power_cap / 4) \<le> energy_cap * n_cycles)
   \<and> (ida_build n_cycles energy_cap power_cap price prior_cha prior_dis = Inr lp2
        \<and> feasible lp2 m2 \<longrightarrow>
      (sum_list prior_cha + (\<Sum>q\<leftarrow>[1..<length price + 1]. cha_ida m2 q)
         - (\<Sum>q\<leftarrow>[1..<length price + 1]. dis_ida_close m2 q)) * (power_cap / 4)
        \<le> energy_cap * n_cycles
      \<and> (sum_list prior_dis + (\<Sum>q\<leftarrow>[1..<length price + 1]. dis_ida m2 q)
         - (\<Sum>q\<leftarrow>[1..<length price + 1]. cha_ida_close m2 q)) * (power_cap / 4)
        \<le> energy_cap * n_cycles)
   \<and> (idc_build n_cycles energy_cap power_cap price prior_cha prior_dis = Inr lp3
        \<and> feasible lp3 m3 \<longrightarrow>
      (sum_list prior_cha + (\<Sum>q\<leftarrow>[1..<length price + 1]. cha_idc m3 q)
         - (\<Sum>q\<leftarrow>[1..<length price + 1]. dis_idc_close m3 q)) * (power_cap / 4)
        \<le> energy_cap * n_cycles
      \<and> (sum_list prior_dis + (\<Sum>q\<leftarrow>[1..<length price + 1]. dis_idc m3 q)
         - (\<Sum>q\<leftarrow>[1..<length price + 1]. cha_idc_close m3 q)) * (power_cap / 4)
        \<le> energy_cap * n_cycles)"
proof (intro conjI impI)
  assume b: "daa_build n_cycles energy_cap power_cap price = Inr lp1 \<and> feasible lp1 m1"
  then have c: "daa_constraints n_cycles energy_cap power_cap m1"
    by (rule daa_built_constraints)
  from c have "daa_charge_cycle_limit power_cap (energy_cap * n_cycles) m1"
    by (simp add: daa_constraints_def Let_def)
  then show "(\<Sum>q\<leftarrow>[1..<97]. cha_daa m1 q) * (power_cap / 4) \<le> energy_cap * n_cycles"
    by (simp only: daa_charge_cycle_limit_def daa_Q_def sum_list_times_const)
  from c have "daa_discharge_cycle_limit power_cap (energy_cap * n_cycles) m1"
    by (simp add: daa_constraints_def Let_def)
  then show "(\<Sum>q\<leftarrow>[1..<97]. dis_daa m1 q) * (power_cap / 4) \<le> energy_cap * n_cycles"
    by (simp only: daa_discharge_cycle_limit_def daa_Q_def sum_list_times_const)
next
  assume b: "ida_build n_cycles energy_cap power_cap price prior_cha prior_dis = Inr lp2
      \<and> feasible lp2 m2"
  then have c: "ida_constraints n_cycles energy_cap power_cap price prior_cha prior_dis m2"
    by (rule ida_built_constraints)
  from c have "ida_charge_cycle_limit power_cap (energy_cap * n_cycles) price prior_cha prior_dis m2"
    by (simp add: ida_constraints_def Let_def)
  then show "(sum_list prior_cha + (\<Sum>q\<leftarrow>[1..<length price + 1]. cha_ida m2 q)
         - (\<Sum>q\<leftarrow>[1..<length price + 1]. dis_ida_close m2 q)) * (power_cap / 4)
        \<le> energy_cap * n_cycles"
    by (simp only: ida_charge_cycle_limit_def ida_Q_def times_divide_eq_right)
  from c have "ida_discharge_cycle_limit power_cap (energy_cap * n_cycles) price prior_cha prior_dis m2"
    by (simp add: ida_constraints_def Let_def)
  then show "(sum_list prior_dis + (\<Sum>q\<leftarrow>[1..<length price + 1]. dis_ida m2 q)
         - (\<Sum>q\<leftarrow>[1..<length price + 1]. cha_ida_close m2 q)) * (power_cap / 4)
        \<le> energy_cap * n_cycles"
    by (simp only: ida_discharge_cycle_limit_def ida_Q_def times_divide_eq_right)
next
  assume b: "idc_build n_cycles energy_cap power_cap price prior_cha prior_dis = Inr lp3
      \<and> feasible lp3 m3"
  then have c: "idc_constraints n_cycles energy_cap power_cap price prior_cha prior_dis m3"
    by (rule idc_built_constraints)
  from c have "idc_discharge_cycle_limit power_cap (energy_cap * n_cycles) price prior_cha prior_dis m3"
    by (simp add: idc_constraints_def Let_def)
  then show "(sum_list prior_cha + (\<Sum>q\<leftarrow>[1..<length price + 1]. cha_idc m3 q)
         - (\<Sum>q\<leftarrow>[1..<length price + 1]. dis_idc_close m3 q)) * (power_cap / 4)
        \<le> energy_cap * n_cycles"
    by (simp only: idc_discharge_cycle_limit_def idc_Q_def times_divide_eq_right)
  from c have "idc_charge_cycle_limit power_cap (energy_cap * n_cycles) price prior_cha prior_dis m3"
    by (simp add: idc_constraints_def Let_def)
  then show "(sum_list prior_dis + (\<Sum>q\<leftarrow>[1..<length price + 1]. dis_idc m3 q)
         - (\<Sum>q\<leftarrow>[1..<length price + 1]. cha_idc_close m3 q)) * (power_cap / 4)
        \<le> energy_cap * n_cycles"
    by (simp only: idc_charge_cycle_limit_def idc_Q_def times_divide_eq_right)
qed

theorem cycle_budget_respected_witness:
  "(daa_build 1 4 4 ex_price_daa = Inr (daa_model 1 4 4 ex_price_daa)
      \<and> feasible (daa_model 1 4 4 ex_price_daa) ex_daa)
   \<and> (\<Sum>q\<leftarrow>[1..<97]. cha_daa ex_daa q) * (4 / 4) \<le> (4::real) * 1
   \<and> (\<Sum>q\<leftarrow>[1..<97]. dis_daa ex_daa q) * (4 / 4) \<le> (4::real) * 1
   \<and> (ida_build 1 4 4 ex_price_0 ex_prior_cha ex_prior_dis
         = Inr (ida_model 1 4 4 ex_price_0 ex_prior_cha ex_prior_dis)
      \<and> feasible (ida_model 1 4 4 ex_price_0 ex_prior_cha ex_prior_dis) ex_ida)
   \<and> (sum_list ex_prior_cha + (\<Sum>q\<leftarrow>[1..<length ex_price_0 + 1]. cha_ida ex_ida q)
         - (\<Sum>q\<leftarrow>[1..<length ex_price_0 + 1]. dis_ida_close ex_ida q)) * (4 / 4) \<le> (4::real) * 1
   \<and> (sum_list ex_prior_dis + (\<Sum>q\<leftarrow>[1..<length ex_price_0 + 1]. dis_ida ex_ida q)
         - (\<Sum>q\<leftarrow>[1..<length ex_price_0 + 1]. cha_ida_close ex_ida q)) * (4 / 4) \<le> (4::real) * 1
   \<and> (idc_build 1 4 4 ex_price_0 ex_prior_cha ex_prior_dis
         = Inr (idc_model 1 4 4 ex_price_0 ex_prior_cha ex_prior_dis)
      \<and> feasible (idc_model 1 4 4 ex_price_0 ex_prior_cha ex_prior_dis) ex_idc)
   \<and> (sum_list ex_prior_cha + (\<Sum>q\<leftarrow>[1..<length ex_price_0 + 1]. cha_idc ex_idc q)
         - (\<Sum>q\<leftarrow>[1..<length ex_price_0 + 1]. dis_idc_close ex_idc q)) * (4 / 4) \<le> (4::real) * 1
   \<and> (sum_list ex_prior_dis + (\<Sum>q\<leftarrow>[1..<length ex_price_0 + 1]. dis_idc ex_idc q)
         - (\<Sum>q\<leftarrow>[1..<length ex_price_0 + 1]. cha_idc_close ex_idc q)) * (4 / 4) \<le> (4::real) * 1"
proof -
  have h1: "daa_build 1 4 4 ex_price_daa = Inr (daa_model 1 4 4 ex_price_daa)
      \<and> feasible (daa_model 1 4 4 ex_price_daa) ex_daa"
    using ex_daa_built ex_daa_feasible by simp
  have h2: "ida_build 1 4 4 ex_price_0 ex_prior_cha ex_prior_dis
         = Inr (ida_model 1 4 4 ex_price_0 ex_prior_cha ex_prior_dis)
      \<and> feasible (ida_model 1 4 4 ex_price_0 ex_prior_cha ex_prior_dis) ex_ida"
    using ex_ida_built ex_ida_feasible by simp
  have h3: "idc_build 1 4 4 ex_price_0 ex_prior_cha ex_prior_dis
         = Inr (idc_model 1 4 4 ex_price_0 ex_prior_cha ex_prior_dis)
      \<and> feasible (idc_model 1 4 4 ex_price_0 ex_prior_cha ex_prior_dis) ex_idc"
    using ex_idc_built ex_idc_feasible by simp
  note t = cycle_budget_respected [of 1 4 4 ex_price_daa "daa_model 1 4 4 ex_price_daa" ex_daa]
  note u = cycle_budget_respected [of 1 4 4 ex_price_0 _ _ ex_prior_cha ex_prior_dis
      "ida_model 1 4 4 ex_price_0 ex_prior_cha ex_prior_dis" ex_ida
      "idc_model 1 4 4 ex_price_0 ex_prior_cha ex_prior_dis" ex_idc]
  from t h1 u h2 h3 show ?thesis by blast
qed

subsection \<open>Closing legality\<close>

text \<open>
  C5. In the models Stage 2 and Stage 3 build, every feasible assignment satisfies, for
  every quarter \<open>q\<close>, \<open>charge_close[q] \<le> prior_discharge[q]\<close> and
  \<open>discharge_close[q] \<le> prior_charge[q]\<close>; the priors are the two lists the stage is
  called with (Stage 1's vectors for Stage 2, Stage 2's combined vectors for Stage 3),
  read at the list index \<open>q - 1\<close>.
\<close>

theorem closing_legality:
  "(ida_build n_cycles energy_cap power_cap price step1_cha_daa step1_dis_daa = Inr lp2
        \<and> feasible lp2 m2 \<longrightarrow>
      (\<forall>q. 1 \<le> q \<and> q \<le> length price \<longrightarrow>
         cha_ida_close m2 q \<le> step1_dis_daa ! (q - 1)
         \<and> dis_ida_close m2 q \<le> step1_cha_daa ! (q - 1)))
   \<and> (idc_build n_cycles energy_cap power_cap price step2_cha_daaida step2_dis_daaida = Inr lp3
        \<and> feasible lp3 m3 \<longrightarrow>
      (\<forall>q. 1 \<le> q \<and> q \<le> length price \<longrightarrow>
         cha_idc_close m3 q \<le> step2_dis_daaida ! (q - 1)
         \<and> dis_idc_close m3 q \<le> step2_cha_daaida ! (q - 1)))"
proof (intro conjI impI allI)
  fix q :: nat
  assume b: "ida_build n_cycles energy_cap power_cap price step1_cha_daa step1_dis_daa = Inr lp2
      \<and> feasible lp2 m2"
    and q: "1 \<le> q \<and> q \<le> length price"
  from b have c: "ida_constraints n_cycles energy_cap power_cap price step1_cha_daa step1_dis_daa m2"
    by (rule ida_built_constraints)
  then have "list_all (ida_cha_close_logic step1_dis_daa m2) (ida_Q price)"
    by (simp add: ida_constraints_def Let_def)
  with q show "cha_ida_close m2 q \<le> step1_dis_daa ! (q - 1)"
    by (simp add: list_all_ida_Q ida_cha_close_logic_def)
  from c have "list_all (ida_dis_close_logic step1_cha_daa m2) (ida_Q price)"
    by (simp add: ida_constraints_def Let_def)
  with q show "dis_ida_close m2 q \<le> step1_cha_daa ! (q - 1)"
    by (simp add: list_all_ida_Q ida_dis_close_logic_def)
next
  fix q :: nat
  assume b: "idc_build n_cycles energy_cap power_cap price step2_cha_daaida step2_dis_daaida = Inr lp3
      \<and> feasible lp3 m3"
    and q: "1 \<le> q \<and> q \<le> length price"
  from b have c: "idc_constraints n_cycles energy_cap power_cap price step2_cha_daaida step2_dis_daaida m3"
    by (rule idc_built_constraints)
  then have "list_all (idc_cha_close_logic step2_dis_daaida m3) (idc_Q price)"
    by (simp add: idc_constraints_def Let_def)
  with q show "cha_idc_close m3 q \<le> step2_dis_daaida ! (q - 1)"
    by (simp add: list_all_idc_Q idc_cha_close_logic_def)
  from c have "list_all (idc_dis_close_logic step2_cha_daaida m3) (idc_Q price)"
    by (simp add: idc_constraints_def Let_def)
  with q show "dis_idc_close m3 q \<le> step2_cha_daaida ! (q - 1)"
    by (simp add: list_all_idc_Q idc_dis_close_logic_def)
qed

theorem closing_legality_witness:
  "(ida_build 1 4 4 ex_price_0 ex_prior_cha ex_prior_dis
         = Inr (ida_model 1 4 4 ex_price_0 ex_prior_cha ex_prior_dis)
      \<and> feasible (ida_model 1 4 4 ex_price_0 ex_prior_cha ex_prior_dis) ex_ida)
   \<and> list_all (\<lambda>q. cha_ida_close ex_ida q \<le> ex_prior_dis ! (q - 1)
                  \<and> dis_ida_close ex_ida q \<le> ex_prior_cha ! (q - 1)) [1..<length ex_price_0 + 1]
   \<and> (idc_build 1 4 4 ex_price_0 ex_prior_cha ex_prior_dis
         = Inr (idc_model 1 4 4 ex_price_0 ex_prior_cha ex_prior_dis)
      \<and> feasible (idc_model 1 4 4 ex_price_0 ex_prior_cha ex_prior_dis) ex_idc)
   \<and> list_all (\<lambda>q. cha_idc_close ex_idc q \<le> ex_prior_dis ! (q - 1)
                  \<and> dis_idc_close ex_idc q \<le> ex_prior_cha ! (q - 1)) [1..<length ex_price_0 + 1]"
proof -
  have h2: "ida_build 1 4 4 ex_price_0 ex_prior_cha ex_prior_dis
         = Inr (ida_model 1 4 4 ex_price_0 ex_prior_cha ex_prior_dis)
      \<and> feasible (ida_model 1 4 4 ex_price_0 ex_prior_cha ex_prior_dis) ex_ida"
    using ex_ida_built ex_ida_feasible by simp
  have h3: "idc_build 1 4 4 ex_price_0 ex_prior_cha ex_prior_dis
         = Inr (idc_model 1 4 4 ex_price_0 ex_prior_cha ex_prior_dis)
      \<and> feasible (idc_model 1 4 4 ex_price_0 ex_prior_cha ex_prior_dis) ex_idc"
    using ex_idc_built ex_idc_feasible by simp
  note u = closing_legality [of 1 4 4 ex_price_0 ex_prior_cha ex_prior_dis
      "ida_model 1 4 4 ex_price_0 ex_prior_cha ex_prior_dis" ex_ida
      ex_prior_cha ex_prior_dis
      "idc_model 1 4 4 ex_price_0 ex_prior_cha ex_prior_dis" ex_idc]
  from u h2 h3 show ?thesis unfolding list_all_upt_Suc by blast
qed

subsection \<open>The combined vectors\<close>

lemma nth_map_quarters: "i < n \<Longrightarrow> map f [1..<n + 1] ! i = f (i + 1)"
  using nth_map_upt [of i "n + 1" 1 f] by (simp add: add.commute)

lemma nth_combined:
  assumes "i < length xs" and "length ys = length xs" and "length zs = length xs"
  shows "map2 (+) (map2 (-) xs ys) zs ! i = xs ! i - ys ! i + (zs ! i :: real)"
  using assms by simp

text \<open>
  C3. Whatever the solver leaves in the model, when Stage 2 or Stage 3 returns, its
  combined vectors are, entry by entry, \<open>prior_charge - discharge_close + charge\<close> and
  \<open>prior_discharge - charge_close + discharge\<close> of the prior lists it was called with and
  the vectors it returns; all of them have the length of the price vector.
\<close>

theorem combined_vector_identity:
  "(step2_optimize_ida solver2 n_cycles energy_cap power_cap price step1_cha_daa step1_dis_daa
        = Inr r2 \<longrightarrow>
      length (out_step2_cha_daaida r2) = length price
      \<and> length (out_step2_dis_daaida r2) = length price
      \<and> length step1_cha_daa = length price \<and> length step1_dis_daa = length price
      \<and> (\<forall>i. i < length price \<longrightarrow>
           out_step2_cha_daaida r2 ! i
             = step1_cha_daa ! i - out_step2_dis_ida_close r2 ! i + out_step2_cha_ida r2 ! i
           \<and> out_step2_dis_daaida r2 ! i
             = step1_dis_daa ! i - out_step2_cha_ida_close r2 ! i + out_step2_dis_ida r2 ! i))
   \<and> (step3_optimize_idc solver3 n_cycles energy_cap power_cap price step2_cha_daaida
          step2_dis_daaida = Inr r3 \<longrightarrow>
      length (out_step3_cha_daaidaidc r3) = length price
      \<and> length (out_step3_dis_daaidaidc r3) = length price
      \<and> length step2_cha_daaida = length price \<and> length step2_dis_daaida = length price
      \<and> (\<forall>i. i < length price \<longrightarrow>
           out_step3_cha_daaidaidc r3 ! i
             = step2_cha_daaida ! i - out_step3_dis_idc_close r3 ! i + out_step3_cha_idc r3 ! i
           \<and> out_step3_dis_daaidaidc r3 ! i
             = step2_dis_daaida ! i - out_step3_cha_idc_close r3 ! i + out_step3_dis_idc r3 ! i))"
proof (rule conjI; rule impI)
  assume "step2_optimize_ida solver2 n_cycles energy_cap power_cap price step1_cha_daa
      step1_dis_daa = Inr r2"
  then show "length (out_step2_cha_daaida r2) = length price
      \<and> length (out_step2_dis_daaida r2) = length price
      \<and> length step1_cha_daa = length price \<and> length step1_dis_daa = length price
      \<and> (\<forall>i. i < length price \<longrightarrow>
           out_step2_cha_daaida r2 ! i
             = step1_cha_daa ! i - out_step2_dis_ida_close r2 ! i + out_step2_cha_ida r2 ! i
           \<and> out_step2_dis_daaida r2 ! i
             = step1_dis_daa ! i - out_step2_cha_ida_close r2 ! i + out_step2_dis_ida r2 ! i)"
    by (auto simp: step2_optimize_ida_def Let_def simp del: upt_Suc
        split: sum.splits solved.splits if_splits)
next
  assume "step3_optimize_idc solver3 n_cycles energy_cap power_cap price step2_cha_daaida
      step2_dis_daaida = Inr r3"
  then show "length (out_step3_cha_daaidaidc r3) = length price
      \<and> length (out_step3_dis_daaidaidc r3) = length price
      \<and> length step2_cha_daaida = length price \<and> length step2_dis_daaida = length price
      \<and> (\<forall>i. i < length price \<longrightarrow>
           out_step3_cha_daaidaidc r3 ! i
             = step2_cha_daaida ! i - out_step3_dis_idc_close r3 ! i + out_step3_cha_idc r3 ! i
           \<and> out_step3_dis_daaidaidc r3 ! i
             = step2_dis_daaida ! i - out_step3_cha_idc_close r3 ! i + out_step3_dis_idc r3 ! i)"
    by (auto simp: step3_optimize_idc_def Let_def simp del: upt_Suc
        split: sum.splits solved.splits if_splits)
qed

theorem combined_vector_identity_witness:
  "step2_optimize_ida (\<lambda>lp. Values ex_ida) 1 4 4 ex_price_0 ex_prior_cha ex_prior_dis
     = Inr ex_result_ida
   \<and> length (out_step2_cha_daaida ex_result_ida) = length ex_price_0
   \<and> length (out_step2_dis_daaida ex_result_ida) = length ex_price_0
   \<and> list_all (\<lambda>i. out_step2_cha_daaida ex_result_ida ! i
          = ex_prior_cha ! i - out_step2_dis_ida_close ex_result_ida ! i
              + out_step2_cha_ida ex_result_ida ! i
        \<and> out_step2_dis_daaida ex_result_ida ! i
          = ex_prior_dis ! i - out_step2_cha_ida_close ex_result_ida ! i
              + out_step2_dis_ida ex_result_ida ! i) [0..<length ex_price_0]
   \<and> step3_optimize_idc (\<lambda>lp. Values ex_idc) 1 4 4 ex_price_0 ex_prior_cha ex_prior_dis
     = Inr ex_result_idc
   \<and> length (out_step3_cha_daaidaidc ex_result_idc) = length ex_price_0
   \<and> length (out_step3_dis_daaidaidc ex_result_idc) = length ex_price_0
   \<and> list_all (\<lambda>i. out_step3_cha_daaidaidc ex_result_idc ! i
          = ex_prior_cha ! i - out_step3_dis_idc_close ex_result_idc ! i
              + out_step3_cha_idc ex_result_idc ! i
        \<and> out_step3_dis_daaidaidc ex_result_idc ! i
          = ex_prior_dis ! i - out_step3_cha_idc_close ex_result_idc ! i
              + out_step3_dis_idc ex_result_idc ! i) [0..<length ex_price_0]"
proof -
  note t = combined_vector_identity [of "\<lambda>lp. Values ex_ida" 1 4 4 ex_price_0 ex_prior_cha
      ex_prior_dis ex_result_ida "\<lambda>lp. Values ex_idc" ex_prior_cha ex_prior_dis ex_result_idc]
  from t ex_ida_returned ex_idc_returned show ?thesis
    unfolding list_all_iff by (auto simp del: upt_Suc)
qed

subsection \<open>Stage 3 builds the model of Stage 2\<close>

lemma as_ida_simps [simp]:
  "soc_ida (as_ida m) = soc_idc m" "cha_ida (as_ida m) = cha_idc m"
  "dis_ida (as_ida m) = dis_idc m" "cha_ida_close (as_ida m) = cha_idc_close m"
  "dis_ida_close (as_ida m) = dis_idc_close m"
  by (simp_all add: as_ida_def)

lemma idc_rules_as_ida:
  "idc_set_maximum_soc energy_cap m = ida_set_maximum_soc energy_cap (as_ida m)"
  "idc_set_minimum_soc m = ida_set_minimum_soc (as_ida m)"
  "idc_set_first_soc_to_0 m = ida_set_first_soc_to_0 (as_ida m)"
  "idc_set_last_soc_to_0 m = ida_set_last_soc_to_0 (as_ida m)"
  "idc_soc_step_constraint power_cap c d m = ida_soc_step_constraint power_cap c d (as_ida m)"
  "idc_cha_close_logic d m = ida_cha_close_logic d (as_ida m)"
  "idc_dis_close_logic c m = ida_dis_close_logic c (as_ida m)"
  "idc_charge_rate_limit c m = ida_charge_rate_limit c (as_ida m)"
  "idc_discharge_rate_limit d m = ida_discharge_rate_limit d (as_ida m)"
  by (simp_all add: fun_eq_iff
      idc_set_maximum_soc_def ida_set_maximum_soc_def
      idc_set_minimum_soc_def ida_set_minimum_soc_def
      idc_set_first_soc_to_0_def ida_set_first_soc_to_0_def
      idc_set_last_soc_to_0_def ida_set_last_soc_to_0_def
      idc_soc_step_constraint_def ida_soc_step_constraint_def
      idc_cha_close_logic_def ida_cha_close_logic_def
      idc_dis_close_logic_def ida_dis_close_logic_def
      idc_charge_rate_limit_def ida_charge_rate_limit_def
      idc_discharge_rate_limit_def ida_discharge_rate_limit_def)

lemma idc_Q_ida_Q: "idc_Q price = ida_Q price" "idc_Q_plus_1 price = ida_Q_plus_1 price"
  by (simp_all add: idc_Q_def ida_Q_def idc_Q_plus_1_def ida_Q_plus_1_def)

lemma idc_cycle_limits_swapped:
  "idc_charge_cycle_limit power_cap volume_limit price c d m
     = ida_discharge_cycle_limit power_cap volume_limit price c d (as_ida m)"
  "idc_discharge_cycle_limit power_cap volume_limit price c d m
     = ida_charge_cycle_limit power_cap volume_limit price c d (as_ida m)"
  by (simp_all add: idc_charge_cycle_limit_def ida_discharge_cycle_limit_def
      idc_discharge_cycle_limit_def ida_charge_cycle_limit_def idc_Q_ida_Q)

lemma idc_var_bounds_as_ida: "idc_var_bounds price m = ida_var_bounds price (as_ida m)"
  by (simp add: idc_var_bounds_def ida_var_bounds_def idc_Q_ida_Q)

lemma idc_constraints_as_ida:
  "idc_constraints n_cycles energy_cap power_cap price c d m
     = ida_constraints n_cycles energy_cap power_cap price c d (as_ida m)"
  unfolding idc_constraints_def ida_constraints_def Let_def idc_rules_as_ida idc_Q_ida_Q
    idc_cycle_limits_swapped
  by blast

lemma idc_obj_as_ida: "idc_obj power_cap price m = ida_obj power_cap price (as_ida m)"
  by (simp add: idc_obj_def ida_obj_def idc_Q_ida_Q)

text \<open>
  C7. For the same inputs, the model Stage 3 builds is the model Stage 2 builds, read
  through the renaming of the variables: the same assignments are feasible, the objective
  has the same value at every assignment, and the build fails in the same calls with the
  same error. The two cycle-budget rules are each other's: the rule Stage 3 names
  \<^verbatim>\<open>charge_cycle_limit\<close> is the rule Stage 2 names \<^verbatim>\<open>discharge_cycle_limit\<close> and the
  other way round, so the pair is the same conjunction.
\<close>

theorem stage3_model_is_stage2_model:
  "feasible (idc_model n_cycles energy_cap power_cap price prior_cha prior_dis) m
     = feasible (ida_model n_cycles energy_cap power_cap price prior_cha prior_dis) (as_ida m)
   \<and> obj (idc_model n_cycles energy_cap power_cap price prior_cha prior_dis) m
     = obj (ida_model n_cycles energy_cap power_cap price prior_cha prior_dis) (as_ida m)
   \<and> (idc_charge_cycle_limit power_cap volume_limit price prior_cha prior_dis m
        \<and> idc_discharge_cycle_limit power_cap volume_limit price prior_cha prior_dis m)
     = (ida_charge_cycle_limit power_cap volume_limit price prior_cha prior_dis (as_ida m)
        \<and> ida_discharge_cycle_limit power_cap volume_limit price prior_cha prior_dis (as_ida m))
   \<and> (idc_build n_cycles energy_cap power_cap price prior_cha prior_dis = Inl e)
     = (ida_build n_cycles energy_cap power_cap price prior_cha prior_dis = Inl e)
   \<and> (idc_build n_cycles energy_cap power_cap price prior_cha prior_dis
        = Inr (idc_model n_cycles energy_cap power_cap price prior_cha prior_dis))
     = (ida_build n_cycles energy_cap power_cap price prior_cha prior_dis
        = Inr (ida_model n_cycles energy_cap power_cap price prior_cha prior_dis))
   \<and> as_ida (as_idc m') = m' \<and> as_idc (as_ida m) = m"
proof -
  have "feasible (idc_model n_cycles energy_cap power_cap price prior_cha prior_dis) m
     = feasible (ida_model n_cycles energy_cap power_cap price prior_cha prior_dis) (as_ida m)"
    by (simp add: idc_feasible_def ida_feasible_def idc_var_bounds_as_ida idc_constraints_as_ida)
  moreover have "obj (idc_model n_cycles energy_cap power_cap price prior_cha prior_dis) m
     = obj (ida_model n_cycles energy_cap power_cap price prior_cha prior_dis) (as_ida m)"
    by (simp add: idc_model_def ida_model_def idc_obj_as_ida)
  moreover have "(idc_charge_cycle_limit power_cap volume_limit price prior_cha prior_dis m
        \<and> idc_discharge_cycle_limit power_cap volume_limit price prior_cha prior_dis m)
     = (ida_charge_cycle_limit power_cap volume_limit price prior_cha prior_dis (as_ida m)
        \<and> ida_discharge_cycle_limit power_cap volume_limit price prior_cha prior_dis (as_ida m))"
    unfolding idc_cycle_limits_swapped by blast
  moreover have "(idc_build n_cycles energy_cap power_cap price prior_cha prior_dis = Inl e)
     = (ida_build n_cycles energy_cap power_cap price prior_cha prior_dis = Inl e)"
    by (simp add: idc_build_def ida_build_def)
  moreover have "(idc_build n_cycles energy_cap power_cap price prior_cha prior_dis
        = Inr (idc_model n_cycles energy_cap power_cap price prior_cha prior_dis))
     = (ida_build n_cycles energy_cap power_cap price prior_cha prior_dis
        = Inr (ida_model n_cycles energy_cap power_cap price prior_cha prior_dis))"
    by (simp add: idc_build_def ida_build_def)
  moreover have "as_ida (as_idc m') = m'" "as_idc (as_ida m) = m"
    by (simp_all add: as_ida_def as_idc_def)
  ultimately show ?thesis by blast
qed

subsection \<open>The cascade keeps positions in the unit interval\<close>

lemma combined_in_unit:
  fixes prior :: "real list" and close new :: "nat \<Rightarrow> real"
  assumes len: "length prior = n"
    and prior: "\<And>i. i < n \<Longrightarrow> 0 \<le> prior ! i \<and> prior ! i \<le> 1"
    and close: "\<And>i. i < n \<Longrightarrow> 0 \<le> close (i + 1) \<and> close (i + 1) \<le> prior ! i"
    and new: "\<And>i. i < n \<Longrightarrow> 0 \<le> new (i + 1) \<and> new (i + 1) + prior ! i \<le> 1"
  shows "list_all (\<lambda>x. 0 \<le> x \<and> x \<le> 1)
           (map2 (+) (map2 (-) prior (map close [1..<n + 1])) (map new [1..<n + 1]))"
    (is "list_all _ ?xs")
proof -
  have l: "length (map f [1..<n + 1]) = n" for f :: "nat \<Rightarrow> real"
    by simp
  have "0 \<le> ?xs ! i \<and> ?xs ! i \<le> 1" if "i < n" for i
  proof -
    have "?xs ! i = prior ! i - map close [1..<n + 1] ! i + map new [1..<n + 1] ! i"
      by (rule nth_combined) (use that len l in simp_all)
    then have "?xs ! i = prior ! i - close (i + 1) + new (i + 1)"
      by (simp only: nth_map_quarters [OF that])
    with close [OF that] new [OF that] show ?thesis by linarith
  qed
  moreover have "length ?xs = n"
    using len l by simp
  ultimately show ?thesis by (simp add: list_all_length)
qed

lemma list_all_quartersD: "list_all P [1..<n + 1] \<Longrightarrow> i < n \<Longrightarrow> P (i + 1)"
  unfolding list_all_upt_Suc by simp

text \<open>
  C10. When both prior vectors lie in \<open>[0,1]\<^sup>9\<^sup>6\<close> and the solver leaves in the model an
  assignment that satisfies the stage's variable bounds, its closing-legality constraints
  and its combined-rate constraints, Stage 2 (and likewise Stage 3) returns, and both
  combined vectors it returns lie in \<open>[0,1]\<^sup>9\<^sup>6\<close>: the output has the property the next
  stage assumes of its input.
\<close>

theorem combined_positions_in_unit_interval:
  "(length price = 96 \<and> length step1_cha_daa = 96 \<and> length step1_dis_daa = 96
      \<and> list_all (\<lambda>x. 0 \<le> x \<and> x \<le> 1) step1_cha_daa
      \<and> list_all (\<lambda>x. 0 \<le> x \<and> x \<le> 1) step1_dis_daa
      \<and> solver2 (ida_model n_cycles energy_cap power_cap price step1_cha_daa step1_dis_daa)
          = Values m2
      \<and> ida_var_bounds price m2
      \<and> list_all (ida_cha_close_logic step1_dis_daa m2) (ida_Q price)
      \<and> list_all (ida_dis_close_logic step1_cha_daa m2) (ida_Q price)
      \<and> list_all (ida_charge_rate_limit step1_cha_daa m2) (ida_Q price)
      \<and> list_all (ida_discharge_rate_limit step1_dis_daa m2) (ida_Q price)
    \<longrightarrow> (\<exists>r. step2_optimize_ida solver2 n_cycles energy_cap power_cap price step1_cha_daa
                 step1_dis_daa = Inr r
          \<and> length (out_step2_cha_daaida r) = 96 \<and> length (out_step2_dis_daaida r) = 96
          \<and> list_all (\<lambda>x. 0 \<le> x \<and> x \<le> 1) (out_step2_cha_daaida r)
          \<and> list_all (\<lambda>x. 0 \<le> x \<and> x \<le> 1) (out_step2_dis_daaida r)))
   \<and> (length price = 96 \<and> length step2_cha_daaida = 96 \<and> length step2_dis_daaida = 96
      \<and> list_all (\<lambda>x. 0 \<le> x \<and> x \<le> 1) step2_cha_daaida
      \<and> list_all (\<lambda>x. 0 \<le> x \<and> x \<le> 1) step2_dis_daaida
      \<and> solver3 (idc_model n_cycles energy_cap power_cap price step2_cha_daaida step2_dis_daaida)
          = Values m3
      \<and> idc_var_bounds price m3
      \<and> list_all (idc_cha_close_logic step2_dis_daaida m3) (idc_Q price)
      \<and> list_all (idc_dis_close_logic step2_cha_daaida m3) (idc_Q price)
      \<and> list_all (idc_charge_rate_limit step2_cha_daaida m3) (idc_Q price)
      \<and> list_all (idc_discharge_rate_limit step2_dis_daaida m3) (idc_Q price)
    \<longrightarrow> (\<exists>r. step3_optimize_idc solver3 n_cycles energy_cap power_cap price step2_cha_daaida
                 step2_dis_daaida = Inr r
          \<and> length (out_step3_cha_daaidaidc r) = 96 \<and> length (out_step3_dis_daaidaidc r) = 96
          \<and> list_all (\<lambda>x. 0 \<le> x \<and> x \<le> 1) (out_step3_cha_daaidaidc r)
          \<and> list_all (\<lambda>x. 0 \<le> x \<and> x \<le> 1) (out_step3_dis_daaidaidc r)))"
proof (rule conjI; rule impI; elim conjE)
  let ?c = step1_cha_daa and ?d = step1_dis_daa
  let ?q = "[1..<length price + 1]"
  assume n: "length price = 96" and lc: "length ?c = 96" and ld: "length ?d = 96"
    and c01: "list_all (\<lambda>x. 0 \<le> x \<and> x \<le> 1) ?c" and d01: "list_all (\<lambda>x. 0 \<le> x \<and> x \<le> 1) ?d"
    and s: "solver2 (ida_model n_cycles energy_cap power_cap price ?c ?d) = Values m2"
    and vb: "ida_var_bounds price m2"
    and cc: "list_all (ida_cha_close_logic ?d m2) (ida_Q price)"
    and dc: "list_all (ida_dis_close_logic ?c m2) (ida_Q price)"
    and cr: "list_all (ida_charge_rate_limit ?c m2) (ida_Q price)"
    and dr: "list_all (ida_discharge_rate_limit ?d m2) (ida_Q price)"
  from vb have b: "unit_bounds (cha_ida m2) (i + 1)" "unit_bounds (dis_ida m2) (i + 1)"
      "unit_bounds (cha_ida_close m2) (i + 1)" "unit_bounds (dis_ida_close m2) (i + 1)"
    if "i < 96" for i
    using that n by (simp_all add: ida_var_bounds_def list_all_ida_Q)
  have cc': "cha_ida_close m2 (i + 1) \<le> ?d ! i" if "i < 96" for i
    using list_all_quartersD [OF cc [unfolded ida_Q_def], of i] that n
    by (simp add: ida_cha_close_logic_def)
  have dc': "dis_ida_close m2 (i + 1) \<le> ?c ! i" if "i < 96" for i
    using list_all_quartersD [OF dc [unfolded ida_Q_def], of i] that n
    by (simp add: ida_dis_close_logic_def)
  have cr': "cha_ida m2 (i + 1) + ?c ! i \<le> 1" if "i < 96" for i
    using list_all_quartersD [OF cr [unfolded ida_Q_def], of i] that n
    by (simp add: ida_charge_rate_limit_def)
  have dr': "dis_ida m2 (i + 1) + ?d ! i \<le> 1" if "i < 96" for i
    using list_all_quartersD [OF dr [unfolded ida_Q_def], of i] that n
    by (simp add: ida_discharge_rate_limit_def)
  have cha: "list_all (\<lambda>x. 0 \<le> x \<and> x \<le> 1)
      (map2 (+) (map2 (-) ?c (map (dis_ida_close m2) ?q)) (map (cha_ida m2) ?q))"
    unfolding n
  proof (rule combined_in_unit)
    show "length ?c = 96" by (rule lc)
    show "0 \<le> ?c ! i \<and> ?c ! i \<le> 1" if "i < 96" for i
      using that c01 lc by (simp add: list_all_length)
    show "0 \<le> dis_ida_close m2 (i + 1) \<and> dis_ida_close m2 (i + 1) \<le> ?c ! i" if "i < 96" for i
      using that dc' b(4) by (simp add: unit_bounds_def)
    show "0 \<le> cha_ida m2 (i + 1) \<and> cha_ida m2 (i + 1) + ?c ! i \<le> 1" if "i < 96" for i
      using that cr' b(1) by (simp add: unit_bounds_def)
  qed
  have dis: "list_all (\<lambda>x. 0 \<le> x \<and> x \<le> 1)
      (map2 (+) (map2 (-) ?d (map (cha_ida_close m2) ?q)) (map (dis_ida m2) ?q))"
    unfolding n
  proof (rule combined_in_unit)
    show "length ?d = 96" by (rule ld)
    show "0 \<le> ?d ! i \<and> ?d ! i \<le> 1" if "i < 96" for i
      using that d01 ld by (simp add: list_all_length)
    show "0 \<le> cha_ida_close m2 (i + 1) \<and> cha_ida_close m2 (i + 1) \<le> ?d ! i" if "i < 96" for i
      using that cc' b(3) by (simp add: unit_bounds_def)
    show "0 \<le> dis_ida m2 (i + 1) \<and> dis_ida m2 (i + 1) + ?d ! i \<le> 1" if "i < 96" for i
      using that dr' b(2) by (simp add: unit_bounds_def)
  qed
  from n lc ld s cha dis
  show "\<exists>r. step2_optimize_ida solver2 n_cycles energy_cap power_cap price ?c ?d = Inr r
          \<and> length (out_step2_cha_daaida r) = 96 \<and> length (out_step2_dis_daaida r) = 96
          \<and> list_all (\<lambda>x. 0 \<le> x \<and> x \<le> 1) (out_step2_cha_daaida r)
          \<and> list_all (\<lambda>x. 0 \<le> x \<and> x \<le> 1) (out_step2_dis_daaida r)"
    by (simp add: step2_optimize_ida_def ida_build_def Let_def del: upt_Suc)
next
  let ?c = step2_cha_daaida and ?d = step2_dis_daaida
  let ?q = "[1..<length price + 1]"
  assume n: "length price = 96" and lc: "length ?c = 96" and ld: "length ?d = 96"
    and c01: "list_all (\<lambda>x. 0 \<le> x \<and> x \<le> 1) ?c" and d01: "list_all (\<lambda>x. 0 \<le> x \<and> x \<le> 1) ?d"
    and s: "solver3 (idc_model n_cycles energy_cap power_cap price ?c ?d) = Values m3"
    and vb: "idc_var_bounds price m3"
    and cc: "list_all (idc_cha_close_logic ?d m3) (idc_Q price)"
    and dc: "list_all (idc_dis_close_logic ?c m3) (idc_Q price)"
    and cr: "list_all (idc_charge_rate_limit ?c m3) (idc_Q price)"
    and dr: "list_all (idc_discharge_rate_limit ?d m3) (idc_Q price)"
  from vb have b: "unit_bounds (cha_idc m3) (i + 1)" "unit_bounds (dis_idc m3) (i + 1)"
      "unit_bounds (cha_idc_close m3) (i + 1)" "unit_bounds (dis_idc_close m3) (i + 1)"
    if "i < 96" for i
    using that n by (simp_all add: idc_var_bounds_def list_all_idc_Q)
  have cc': "cha_idc_close m3 (i + 1) \<le> ?d ! i" if "i < 96" for i
    using list_all_quartersD [OF cc [unfolded idc_Q_def], of i] that n
    by (simp add: idc_cha_close_logic_def)
  have dc': "dis_idc_close m3 (i + 1) \<le> ?c ! i" if "i < 96" for i
    using list_all_quartersD [OF dc [unfolded idc_Q_def], of i] that n
    by (simp add: idc_dis_close_logic_def)
  have cr': "cha_idc m3 (i + 1) + ?c ! i \<le> 1" if "i < 96" for i
    using list_all_quartersD [OF cr [unfolded idc_Q_def], of i] that n
    by (simp add: idc_charge_rate_limit_def)
  have dr': "dis_idc m3 (i + 1) + ?d ! i \<le> 1" if "i < 96" for i
    using list_all_quartersD [OF dr [unfolded idc_Q_def], of i] that n
    by (simp add: idc_discharge_rate_limit_def)
  have cha: "list_all (\<lambda>x. 0 \<le> x \<and> x \<le> 1)
      (map2 (+) (map2 (-) ?c (map (dis_idc_close m3) ?q)) (map (cha_idc m3) ?q))"
    unfolding n
  proof (rule combined_in_unit)
    show "length ?c = 96" by (rule lc)
    show "0 \<le> ?c ! i \<and> ?c ! i \<le> 1" if "i < 96" for i
      using that c01 lc by (simp add: list_all_length)
    show "0 \<le> dis_idc_close m3 (i + 1) \<and> dis_idc_close m3 (i + 1) \<le> ?c ! i" if "i < 96" for i
      using that dc' b(4) by (simp add: unit_bounds_def)
    show "0 \<le> cha_idc m3 (i + 1) \<and> cha_idc m3 (i + 1) + ?c ! i \<le> 1" if "i < 96" for i
      using that cr' b(1) by (simp add: unit_bounds_def)
  qed
  have dis: "list_all (\<lambda>x. 0 \<le> x \<and> x \<le> 1)
      (map2 (+) (map2 (-) ?d (map (cha_idc_close m3) ?q)) (map (dis_idc m3) ?q))"
    unfolding n
  proof (rule combined_in_unit)
    show "length ?d = 96" by (rule ld)
    show "0 \<le> ?d ! i \<and> ?d ! i \<le> 1" if "i < 96" for i
      using that d01 ld by (simp add: list_all_length)
    show "0 \<le> cha_idc_close m3 (i + 1) \<and> cha_idc_close m3 (i + 1) \<le> ?d ! i" if "i < 96" for i
      using that cc' b(3) by (simp add: unit_bounds_def)
    show "0 \<le> dis_idc m3 (i + 1) \<and> dis_idc m3 (i + 1) + ?d ! i \<le> 1" if "i < 96" for i
      using that dr' b(2) by (simp add: unit_bounds_def)
  qed
  from n lc ld s cha dis
  show "\<exists>r. step3_optimize_idc solver3 n_cycles energy_cap power_cap price ?c ?d = Inr r
          \<and> length (out_step3_cha_daaidaidc r) = 96 \<and> length (out_step3_dis_daaidaidc r) = 96
          \<and> list_all (\<lambda>x. 0 \<le> x \<and> x \<le> 1) (out_step3_cha_daaidaidc r)
          \<and> list_all (\<lambda>x. 0 \<le> x \<and> x \<le> 1) (out_step3_dis_daaidaidc r)"
    by (simp add: step3_optimize_idc_def idc_build_def Let_def del: upt_Suc)
qed

theorem combined_positions_in_unit_interval_witness:
  "(length ex_price_0 = 96 \<and> length ex_prior_cha = 96 \<and> length ex_prior_dis = 96
      \<and> list_all (\<lambda>x. 0 \<le> x \<and> x \<le> 1) ex_prior_cha
      \<and> list_all (\<lambda>x. 0 \<le> x \<and> x \<le> 1) ex_prior_dis
      \<and> ida_var_bounds ex_price_0 ex_ida
      \<and> list_all (ida_cha_close_logic ex_prior_dis ex_ida) (ida_Q ex_price_0)
      \<and> list_all (ida_dis_close_logic ex_prior_cha ex_ida) (ida_Q ex_price_0)
      \<and> list_all (ida_charge_rate_limit ex_prior_cha ex_ida) (ida_Q ex_price_0)
      \<and> list_all (ida_discharge_rate_limit ex_prior_dis ex_ida) (ida_Q ex_price_0))
   \<and> step2_optimize_ida (\<lambda>lp. Values ex_ida) 1 4 4 ex_price_0 ex_prior_cha ex_prior_dis
        = Inr ex_result_ida
   \<and> length (out_step2_cha_daaida ex_result_ida) = 96
   \<and> length (out_step2_dis_daaida ex_result_ida) = 96
   \<and> list_all (\<lambda>x. 0 \<le> x \<and> x \<le> 1) (out_step2_cha_daaida ex_result_ida)
   \<and> list_all (\<lambda>x. 0 \<le> x \<and> x \<le> 1) (out_step2_dis_daaida ex_result_ida)
   \<and> (idc_var_bounds ex_price_0 ex_idc
      \<and> list_all (idc_cha_close_logic ex_prior_dis ex_idc) (idc_Q ex_price_0)
      \<and> list_all (idc_dis_close_logic ex_prior_cha ex_idc) (idc_Q ex_price_0)
      \<and> list_all (idc_charge_rate_limit ex_prior_cha ex_idc) (idc_Q ex_price_0)
      \<and> list_all (idc_discharge_rate_limit ex_prior_dis ex_idc) (idc_Q ex_price_0))
   \<and> step3_optimize_idc (\<lambda>lp. Values ex_idc) 1 4 4 ex_price_0 ex_prior_cha ex_prior_dis
        = Inr ex_result_idc
   \<and> length (out_step3_cha_daaidaidc ex_result_idc) = 96
   \<and> length (out_step3_dis_daaidaidc ex_result_idc) = 96
   \<and> list_all (\<lambda>x. 0 \<le> x \<and> x \<le> 1) (out_step3_cha_daaidaidc ex_result_idc)
   \<and> list_all (\<lambda>x. 0 \<le> x \<and> x \<le> 1) (out_step3_dis_daaidaidc ex_result_idc)"
proof -
  have h2: "ida_var_bounds ex_price_0 ex_ida
      \<and> list_all (ida_cha_close_logic ex_prior_dis ex_ida) (ida_Q ex_price_0)
      \<and> list_all (ida_dis_close_logic ex_prior_cha ex_ida) (ida_Q ex_price_0)
      \<and> list_all (ida_charge_rate_limit ex_prior_cha ex_ida) (ida_Q ex_price_0)
      \<and> list_all (ida_discharge_rate_limit ex_prior_dis ex_ida) (ida_Q ex_price_0)"
    using ex_ida_feasible by (simp add: ida_feasible_def ida_constraints_def Let_def)
  have h3: "idc_var_bounds ex_price_0 ex_idc
      \<and> list_all (idc_cha_close_logic ex_prior_dis ex_idc) (idc_Q ex_price_0)
      \<and> list_all (idc_dis_close_logic ex_prior_cha ex_idc) (idc_Q ex_price_0)
      \<and> list_all (idc_charge_rate_limit ex_prior_cha ex_idc) (idc_Q ex_price_0)
      \<and> list_all (idc_discharge_rate_limit ex_prior_dis ex_idc) (idc_Q ex_price_0)"
    using ex_idc_feasible by (simp add: idc_feasible_def idc_constraints_def Let_def)
  note t = combined_positions_in_unit_interval [of ex_price_0 ex_prior_cha ex_prior_dis
      "\<lambda>lp. Values ex_ida" 1 4 4 ex_ida ex_prior_cha ex_prior_dis "\<lambda>lp. Values ex_idc" ex_idc]
  from t h2 ex_priors_unit
  have "\<exists>r. step2_optimize_ida (\<lambda>lp. Values ex_ida) 1 4 4 ex_price_0 ex_prior_cha ex_prior_dis
          = Inr r
        \<and> length (out_step2_cha_daaida r) = 96 \<and> length (out_step2_dis_daaida r) = 96
        \<and> list_all (\<lambda>x. 0 \<le> x \<and> x \<le> 1) (out_step2_cha_daaida r)
        \<and> list_all (\<lambda>x. 0 \<le> x \<and> x \<le> 1) (out_step2_dis_daaida r)"
    by blast
  then have c2: "length (out_step2_cha_daaida ex_result_ida) = 96
      \<and> length (out_step2_dis_daaida ex_result_ida) = 96
      \<and> list_all (\<lambda>x. 0 \<le> x \<and> x \<le> 1) (out_step2_cha_daaida ex_result_ida)
      \<and> list_all (\<lambda>x. 0 \<le> x \<and> x \<le> 1) (out_step2_dis_daaida ex_result_ida)"
    unfolding ex_ida_returned by blast
  from t h3 ex_priors_unit
  have "\<exists>r. step3_optimize_idc (\<lambda>lp. Values ex_idc) 1 4 4 ex_price_0 ex_prior_cha ex_prior_dis
          = Inr r
        \<and> length (out_step3_cha_daaidaidc r) = 96 \<and> length (out_step3_dis_daaidaidc r) = 96
        \<and> list_all (\<lambda>x. 0 \<le> x \<and> x \<le> 1) (out_step3_cha_daaidaidc r)
        \<and> list_all (\<lambda>x. 0 \<le> x \<and> x \<le> 1) (out_step3_dis_daaidaidc r)"
    by blast
  then have c3: "length (out_step3_cha_daaidaidc ex_result_idc) = 96
      \<and> length (out_step3_dis_daaidaidc ex_result_idc) = 96
      \<and> list_all (\<lambda>x. 0 \<le> x \<and> x \<le> 1) (out_step3_cha_daaidaidc ex_result_idc)
      \<and> list_all (\<lambda>x. 0 \<le> x \<and> x \<le> 1) (out_step3_dis_daaidaidc ex_result_idc)"
    unfolding ex_idc_returned by blast
  from h2 h3 c2 c3 ex_priors_unit ex_ida_returned ex_idc_returned show ?thesis by blast
qed

subsection \<open>Hourly blocks in Stage 1\<close>

lemma sum_list_upt_split:
  fixes f :: "nat \<Rightarrow> real"
  assumes "a \<le> k" and "k \<le> b"
  shows "(\<Sum>q\<leftarrow>[a..<b]. f q) = (\<Sum>q\<leftarrow>[a..<k]. f q) + (\<Sum>q\<leftarrow>[k..<b]. f q)"
proof -
  from assms have "[a..<b] = [a..<k] @ [k..<b]"
    by (metis le_Suc_ex upt_add_eq_append)
  then show ?thesis by simp
qed

lemma sum_list_upt_zero:
  fixes f :: "nat \<Rightarrow> real"
  assumes "\<And>q. a \<le> q \<Longrightarrow> q < b \<Longrightarrow> f q = 0"
  shows "(\<Sum>q\<leftarrow>[a..<b]. f q) = 0"
  using assms by (induction b) auto

lemma ex_price_daa_nth:
  "1 \<le> q \<Longrightarrow> q \<le> 96 \<Longrightarrow> ex_price_daa ! (q - 1) = (if q = 5 then 10 else 0)"
  by (auto simp: ex_price_daa_def nth_append nth_Cons')

lemma daa_obj_ex_price: "daa_obj 4 ex_price_daa m = 10 * (dis_daa m 5 - cha_daa m 5)"
proof -
  let ?f = "\<lambda>q. 4 / 4 * ex_price_daa ! (q - 1) * (dis_daa m q - cha_daa m q)"
  have "(\<Sum>q\<leftarrow>[1..<97]. ?f q)
      = (\<Sum>q\<leftarrow>[1..<5]. ?f q) + ((\<Sum>q\<leftarrow>[5..<6]. ?f q) + (\<Sum>q\<leftarrow>[6..<97]. ?f q))"
    by (simp only: sum_list_upt_split [of 1 5 97 ?f] sum_list_upt_split [of 5 6 97 ?f])
  moreover have "(\<Sum>q\<leftarrow>[1..<5]. ?f q) = 0"
    by (rule sum_list_upt_zero) (simp add: ex_price_daa_nth [simplified])
  moreover have "(\<Sum>q\<leftarrow>[6..<97]. ?f q) = 0"
    by (rule sum_list_upt_zero) (simp add: ex_price_daa_nth [simplified])
  moreover have "(\<Sum>q\<leftarrow>[5..<6]. ?f q) = 10 * (dis_daa m 5 - cha_daa m 5)"
    by (simp add: ex_price_daa_nth [of 5, simplified])
  ultimately show ?thesis by (simp add: daa_obj_def daa_Q_def)
qed

text \<open>At the price \<open>ex_price_daa\<close> no feasible assignment earns more than \<open>ex_daa\<close> does:
  \<open>ex_daa\<close> is an optimum, one the solver may return.\<close>

lemma ex_daa_optimal:
  assumes "feasible (daa_model 1 4 4 ex_price_daa) m"
  shows "obj (daa_model 1 4 4 ex_price_daa) m \<le> obj (daa_model 1 4 4 ex_price_daa) ex_daa"
proof -
  from assms have "daa_var_bounds m"
    by (simp add: daa_feasible_def)
  then have "unit_bounds (cha_daa m) 5" "unit_bounds (dis_daa m) 5"
    by (simp_all add: daa_var_bounds_def list_all_daa_Q)
  then have "10 * (dis_daa m 5 - cha_daa m 5) \<le> 10"
    by (simp add: unit_bounds_def)
  moreover have "10 * (dis_daa ex_daa 5 - cha_daa ex_daa 5) = (10::real)"
    by (simp add: ex_daa_def)
  ultimately show ?thesis
    by (simp add: daa_model_def daa_obj_ex_price)
qed

text \<open>
  The charge half of the hourly-block property. In the model Stage 1 builds, the four
  charges of every hour \<open>h\<close> from 0 to 23 are equal in every feasible assignment: the
  rules named \<^verbatim>\<open>cha_daa_quarters_*_parity\<close> do constrain \<^verbatim>\<open>cha_daa\<close>.
\<close>

theorem cha_daa_hourly_blocks:
  "daa_build n_cycles energy_cap power_cap price = Inr lp \<and> feasible lp m \<and> h < 24 \<longrightarrow>
     cha_daa m (4 * h + 1) = cha_daa m (4 * h + 2)
     \<and> cha_daa m (4 * h + 2) = cha_daa m (4 * h + 3)
     \<and> cha_daa m (4 * h + 3) = cha_daa m (4 * h + 4)"
proof (rule impI, elim conjE)
  assume b: "daa_build n_cycles energy_cap power_cap price = Inr lp" "feasible lp m"
    and h: "h < 24"
  from b have c: "daa_constraints n_cycles energy_cap power_cap m"
    using daa_built_constraints(2) by blast
  from c h have "cha_daa_quarters_1_2_parity m h"
    by (simp add: daa_constraints_def Let_def daa_H_def list_all_upt)
  moreover from c h have "cha_daa_quarters_2_3_parity m h"
    by (simp add: daa_constraints_def Let_def daa_H_def list_all_upt)
  moreover from c h have "cha_daa_quarters_3_4_parity m h"
    by (simp add: daa_constraints_def Let_def daa_H_def list_all_upt)
  ultimately show "cha_daa m (4 * h + 1) = cha_daa m (4 * h + 2)
     \<and> cha_daa m (4 * h + 2) = cha_daa m (4 * h + 3)
     \<and> cha_daa m (4 * h + 3) = cha_daa m (4 * h + 4)"
    by (simp add: cha_daa_quarters_1_2_parity_def cha_daa_quarters_2_3_parity_def
        cha_daa_quarters_3_4_parity_def)
qed

theorem cha_daa_hourly_blocks_witness:
  "(daa_build 1 4 4 ex_price_daa = Inr (daa_model 1 4 4 ex_price_daa)
      \<and> feasible (daa_model 1 4 4 ex_price_daa) ex_daa)
   \<and> list_all (\<lambda>h. cha_daa ex_daa (4 * h + 1) = cha_daa ex_daa (4 * h + 2)
        \<and> cha_daa ex_daa (4 * h + 2) = cha_daa ex_daa (4 * h + 3)
        \<and> cha_daa ex_daa (4 * h + 3) = cha_daa ex_daa (4 * h + 4)) [0..<24]"
proof -
  have h1: "daa_build 1 4 4 ex_price_daa = Inr (daa_model 1 4 4 ex_price_daa)
      \<and> feasible (daa_model 1 4 4 ex_price_daa) ex_daa"
    using ex_daa_built ex_daa_feasible by simp
  note t = cha_daa_hourly_blocks [of 1 4 4 ex_price_daa "daa_model 1 4 4 ex_price_daa" ex_daa]
  from t h1 show ?thesis
    unfolding list_all_upt by blast
qed

text \<open>
  C1 (the code departs from the claim). The claim asks that in every feasible assignment
  of the Stage 1 model the four discharges of an hour are equal, as the four charges are.
  The rules \<^verbatim>\<open>dis_daa_quarters_1_2_parity\<close>, \<^verbatim>\<open>dis_daa_quarters_2_3_parity\<close> and
  \<^verbatim>\<open>dis_daa_quarters_3_4_parity\<close>, whose names and docstrings announce exactly that,
  compare \<^verbatim>\<open>model.cha_daa\<close> with itself, so nothing constrains \<^verbatim>\<open>model.dis_daa\<close>
  within an hour. With \<open>n_cycles = 1\<close>, \<open>energy_cap = 4\<close>, \<open>power_cap = 4\<close> the
  assignment \<open>ex_daa\<close> is feasible in the model Stage 1 builds, its discharge is 1 in
  quarter 5 and 0 in quarters 6, 7 and 8 of the same hour, and when the solver leaves it in
  the model (at the price \<open>ex_price_daa\<close> it is an optimum, by \<open>ex_daa_optimal\<close>) Stage 1
  returns that discharge vector.
\<close>

theorem dis_daa_parity_not_enforced:
  "daa_build 1 4 4 ex_price_daa = Inr (daa_model 1 4 4 ex_price_daa)
   \<and> feasible (daa_model 1 4 4 ex_price_daa) ex_daa
   \<and> dis_daa ex_daa 5 = 1 \<and> dis_daa ex_daa 6 = 0 \<and> dis_daa ex_daa 7 = 0 \<and> dis_daa ex_daa 8 = 0
   \<and> step1_optimize_daa (\<lambda>lp. Values ex_daa) 1 4 4 ex_price_daa = Inr ex_result_daa
   \<and> out_step1_dis_daa ex_result_daa ! 4 = 1 \<and> out_step1_dis_daa ex_result_daa ! 5 = 0"
proof -
  have "step1_optimize_daa (\<lambda>lp. Values ex_daa) 1 4 4 ex_price_daa = Inr ex_result_daa"
    by code_simp
  moreover have "out_step1_dis_daa ex_result_daa ! 4 = 1 \<and> out_step1_dis_daa ex_result_daa ! 5 = 0"
    by (simp add: ex_result_daa_def nth_append)
  moreover have "dis_daa ex_daa 5 = 1 \<and> dis_daa ex_daa 6 = 0 \<and> dis_daa ex_daa 7 = 0
      \<and> dis_daa ex_daa 8 = 0"
    by (simp add: ex_daa_def)
  ultimately show ?thesis
    using ex_daa_built ex_daa_feasible by simp
qed

subsection \<open>No capacity, no trade\<close>

lemma sum_list_nonneg_zero:
  fixes f :: "nat \<Rightarrow> real"
  assumes "(\<Sum>q\<leftarrow>qs. f q) \<le> 0" and "\<And>q. q \<in> set qs \<Longrightarrow> 0 \<le> f q" and "q \<in> set qs"
  shows "f q = 0"
proof -
  have nn: "\<And>x. x \<in> set (map f qs) \<Longrightarrow> 0 \<le> x"
    using assms(2) by auto
  then have "0 \<le> sum_list (map f qs)"
    by (rule sum_list_nonneg)
  with assms(1) have "sum_list (map f qs) = 0"
    by simp
  moreover from nn have "sum_list (map f qs) = 0 \<longleftrightarrow> (\<forall>x\<in>set (map f qs). x = 0)"
    by (rule sum_list_nonneg_eq_0_iff)
  ultimately have "\<forall>x\<in>set (map f qs). x = 0"
    by blast
  with assms(3) show ?thesis by simp
qed

lemma zero_budget_no_position:
  assumes f: "daa_feasible n_cycles energy_cap power_cap m"
    and p: "0 < power_cap" and v: "energy_cap * n_cycles = 0"
    and q: "1 \<le> q" "q \<le> 96"
  shows "cha_daa m q = 0" and "dis_daa m q = 0"
proof -
  from f have b: "daa_var_bounds m" and c: "daa_constraints n_cycles energy_cap power_cap m"
    by (rule daa_feasibleD)+
  from q have mem: "q \<in> set daa_Q"
    by (simp add: daa_Q_def)
  from b have nn: "0 \<le> cha_daa m x * power_cap / 4" "0 \<le> dis_daa m x * power_cap / 4"
    if "x \<in> set daa_Q" for x
    using that p by (simp_all add: daa_var_bounds_def list_all_iff unit_bounds_def)
  from c v have "(\<Sum>x\<leftarrow>daa_Q. cha_daa m x * power_cap / 4) \<le> 0"
    by (simp add: daa_constraints_def Let_def daa_charge_cycle_limit_def)
  then have "cha_daa m q * power_cap / 4 = 0"
    using nn(1) mem by (rule sum_list_nonneg_zero)
  with p show "cha_daa m q = 0" by simp
  from c v have "(\<Sum>x\<leftarrow>daa_Q. dis_daa m x * power_cap / 4) \<le> 0"
    by (simp add: daa_constraints_def Let_def daa_discharge_cycle_limit_def)
  then have "dis_daa m q * power_cap / 4 = 0"
    using nn(2) mem by (rule sum_list_nonneg_zero)
  with p show "dis_daa m q = 0" by simp
qed

lemma zero_budget_soc:
  assumes f: "daa_feasible n_cycles energy_cap power_cap m"
    and p: "0 < power_cap" and v: "energy_cap * n_cycles = 0"
  shows "q \<le> 96 \<Longrightarrow> soc_daa m (q + 1) = 0"
proof (induction q)
  case 0
  from f show ?case
    by (simp add: daa_feasible_def daa_constraints_def Let_def daa_set_first_soc_to_0_def)
next
  case (Suc q)
  from f have "list_all (daa_soc_step_constraint power_cap m) daa_Q"
    by (simp add: daa_feasible_def daa_constraints_def Let_def)
  with Suc.prems have "daa_soc_step_constraint power_cap m (q + 1)"
    by (simp add: list_all_daa_Q)
  moreover from Suc.prems have "cha_daa m (q + 1) = 0" "dis_daa m (q + 1) = 0"
    using zero_budget_no_position [OF f p v, of "q + 1"] by simp_all
  moreover from Suc have "soc_daa m (q + 1) = 0" by simp
  ultimately show ?case
    by (simp add: daa_soc_step_constraint_def)
qed

lemma zero_daa_feasible:
  assumes "0 \<le> energy_cap" and "energy_cap * n_cycles = 0"
  shows "daa_feasible n_cycles energy_cap power_cap zero_daa"
  using assms(1)
  by (simp add: assms(2) daa_feasible_def daa_var_bounds_def daa_constraints_def Let_def list_all_iff
      unit_bounds_def zero_daa_def daa_set_maximum_soc_def daa_set_minimum_soc_def
      daa_set_first_soc_to_0_def daa_set_last_soc_to_0_def daa_soc_step_constraint_def
      daa_charge_cycle_limit_def daa_discharge_cycle_limit_def
      cha_daa_quarters_1_2_parity_def cha_daa_quarters_2_3_parity_def
      cha_daa_quarters_3_4_parity_def dis_daa_quarters_1_2_parity_def
      dis_daa_quarters_2_3_parity_def dis_daa_quarters_3_4_parity_def)

lemma map_quarters_zero:
  fixes f :: "nat \<Rightarrow> real"
  assumes "\<And>q. 1 \<le> q \<Longrightarrow> q \<le> n \<Longrightarrow> f q = 0"
  shows "map f [1..<n + 1] = replicate n 0"
proof -
  have "map f [1..<n + 1] = map (\<lambda>q. 0) [1..<n + 1]"
    by (rule map_cong) (use assms in auto)
  then show ?thesis by (simp add: map_replicate_const del: upt_Suc)
qed

text \<open>
  C6, as amended. When \<open>power_cap\<close> is positive, \<open>energy_cap\<close> is not negative and
  \<open>energy_cap * n_cycles = 0\<close> (no energy capacity or no cycle, with a positive power
  capacity), the all-zero assignment is feasible in the Stage 1 model, every feasible
  assignment has all charges and discharges of quarters 1 to 96 and all states of charge of
  checkpoints 1 to 97 equal to 0, and so whatever feasible assignment the solver leaves in
  the model, Stage 1 returns three all-zero vectors and the profit 0.
\<close>

theorem no_capacity_no_trade:
  "0 < power_cap \<and> 0 \<le> energy_cap \<and> energy_cap * n_cycles = 0 \<longrightarrow>
     feasible (daa_model n_cycles energy_cap power_cap price) zero_daa
     \<and> (\<forall>m. feasible (daa_model n_cycles energy_cap power_cap price) m \<longrightarrow>
          (\<forall>q. 1 \<le> q \<and> q \<le> 96 \<longrightarrow> cha_daa m q = 0 \<and> dis_daa m q = 0)
          \<and> (\<forall>q. 1 \<le> q \<and> q \<le> 97 \<longrightarrow> soc_daa m q = 0))
     \<and> (\<forall>solver m. length price = 96
          \<and> solver (daa_model n_cycles energy_cap power_cap price) = Values m
          \<and> feasible (daa_model n_cycles energy_cap power_cap price) m \<longrightarrow>
          step1_optimize_daa solver n_cycles energy_cap power_cap price
            = Inr \<lparr>out_step1_soc_daa = replicate 96 0, out_step1_cha_daa = replicate 96 0,
                   out_step1_dis_daa = replicate 96 0, out_step1_profit_daa = 0\<rparr>)"
proof (rule impI, elim conjE)
  assume p: "0 < power_cap" and e: "0 \<le> energy_cap" and v: "energy_cap * n_cycles = 0"
  have z: "feasible (daa_model n_cycles energy_cap power_cap price) zero_daa"
    using zero_daa_feasible [OF e v] by simp
  have all0: "(\<forall>q. 1 \<le> q \<and> q \<le> 96 \<longrightarrow> cha_daa m q = 0 \<and> dis_daa m q = 0)
      \<and> (\<forall>q. 1 \<le> q \<and> q \<le> 97 \<longrightarrow> soc_daa m q = 0)"
    if "feasible (daa_model n_cycles energy_cap power_cap price) m" for m
  proof -
    from that have f: "daa_feasible n_cycles energy_cap power_cap m" by simp
    have "soc_daa m q = 0" if "1 \<le> q" "q \<le> 97" for q
      using zero_budget_soc [OF f p v, of "q - 1"] that by simp
    with zero_budget_no_position [OF f p v] show ?thesis by blast
  qed
  have ret: "step1_optimize_daa solver n_cycles energy_cap power_cap price
      = Inr \<lparr>out_step1_soc_daa = replicate 96 0, out_step1_cha_daa = replicate 96 0,
             out_step1_dis_daa = replicate 96 0, out_step1_profit_daa = 0\<rparr>"
    if n: "length price = 96"
      and s: "solver (daa_model n_cycles energy_cap power_cap price) = Values m"
      and f: "feasible (daa_model n_cycles energy_cap power_cap price) m" for solver m
  proof -
    from all0 [OF f] have "map (soc_daa m) [1..<96 + 1] = replicate 96 0"
      "map (cha_daa m) [1..<96 + 1] = replicate 96 0"
      "map (dis_daa m) [1..<96 + 1] = replicate 96 0"
      by (intro map_quarters_zero; simp)+
    then have "map (soc_daa m) [1..<97] = replicate 96 0"
      "map (cha_daa m) [1..<97] = replicate 96 0"
      "map (dis_daa m) [1..<97] = replicate 96 0"
      by simp_all
    moreover have "(\<Sum>q\<leftarrow>[0..<96]. power_cap / 4 * price ! q
        * (replicate 96 0 ! q - replicate 96 (0::real) ! q)) = 0"
      by (rule sum_list_upt_zero) simp
    ultimately show ?thesis
      using n s by (simp add: step1_optimize_daa_def daa_build_def Let_def)
  qed
  from z all0 ret
  show "feasible (daa_model n_cycles energy_cap power_cap price) zero_daa
     \<and> (\<forall>m. feasible (daa_model n_cycles energy_cap power_cap price) m \<longrightarrow>
          (\<forall>q. 1 \<le> q \<and> q \<le> 96 \<longrightarrow> cha_daa m q = 0 \<and> dis_daa m q = 0)
          \<and> (\<forall>q. 1 \<le> q \<and> q \<le> 97 \<longrightarrow> soc_daa m q = 0))
     \<and> (\<forall>solver m. length price = 96
          \<and> solver (daa_model n_cycles energy_cap power_cap price) = Values m
          \<and> feasible (daa_model n_cycles energy_cap power_cap price) m \<longrightarrow>
          step1_optimize_daa solver n_cycles energy_cap power_cap price
            = Inr \<lparr>out_step1_soc_daa = replicate 96 0, out_step1_cha_daa = replicate 96 0,
                   out_step1_dis_daa = replicate 96 0, out_step1_profit_daa = 0\<rparr>)"
    by blast
qed

theorem no_capacity_no_trade_witness:
  "((0::real) < 4 \<and> (0::real) \<le> 4 \<and> (4::real) * 0 = 0)
   \<and> feasible (daa_model 0 4 4 ex_price_2h) zero_daa
   \<and> list_all (\<lambda>q. cha_daa zero_daa q = 0 \<and> dis_daa zero_daa q = 0) [1..<97]
   \<and> list_all (\<lambda>q. soc_daa zero_daa q = 0) [1..<98]
   \<and> length ex_price_2h = 96
   \<and> step1_optimize_daa (\<lambda>lp. Values zero_daa) 0 4 4 ex_price_2h
       = Inr \<lparr>out_step1_soc_daa = replicate 96 0, out_step1_cha_daa = replicate 96 0,
              out_step1_dis_daa = replicate 96 0, out_step1_profit_daa = 0\<rparr>"
proof -
  have h: "(0::real) < 4 \<and> (0::real) \<le> 4 \<and> (4::real) * 0 = 0" by simp
  have n: "length ex_price_2h = 96" by (simp add: ex_price_2h_def)
  note t = no_capacity_no_trade [of 4 4 0 ex_price_2h]
  from t h have z: "feasible (daa_model 0 4 4 ex_price_2h) zero_daa" by blast
  from t h z have "(\<forall>q. 1 \<le> q \<and> q \<le> 96 \<longrightarrow> cha_daa zero_daa q = 0 \<and> dis_daa zero_daa q = 0)
      \<and> (\<forall>q. 1 \<le> q \<and> q \<le> 97 \<longrightarrow> soc_daa zero_daa q = 0)"
    by blast
  then have l: "list_all (\<lambda>q. cha_daa zero_daa q = 0 \<and> dis_daa zero_daa q = 0) [1..<97]
      \<and> list_all (\<lambda>q. soc_daa zero_daa q = 0) [1..<98]"
    by (simp add: list_all_upt)
  from t h have "\<forall>solver m. length ex_price_2h = 96
        \<and> solver (daa_model 0 4 4 ex_price_2h) = Values m
        \<and> feasible (daa_model 0 4 4 ex_price_2h) m \<longrightarrow>
        step1_optimize_daa solver 0 4 4 ex_price_2h
          = Inr \<lparr>out_step1_soc_daa = replicate 96 0, out_step1_cha_daa = replicate 96 0,
                 out_step1_dis_daa = replicate 96 0, out_step1_profit_daa = 0\<rparr>"
    by blast
  then have "length ex_price_2h = 96
        \<and> (\<lambda>lp. Values zero_daa) (daa_model 0 4 4 ex_price_2h) = Values zero_daa
        \<and> feasible (daa_model 0 4 4 ex_price_2h) zero_daa \<longrightarrow>
        step1_optimize_daa (\<lambda>lp. Values zero_daa) 0 4 4 ex_price_2h
          = Inr \<lparr>out_step1_soc_daa = replicate 96 0, out_step1_cha_daa = replicate 96 0,
                 out_step1_dis_daa = replicate 96 0, out_step1_profit_daa = 0\<rparr>"
    by (elim allE)
  with n z have "step1_optimize_daa (\<lambda>lp. Values zero_daa) 0 4 4 ex_price_2h
          = Inr \<lparr>out_step1_soc_daa = replicate 96 0, out_step1_cha_daa = replicate 96 0,
                 out_step1_dis_daa = replicate 96 0, out_step1_profit_daa = 0\<rparr>"
    by simp
  with h z l n show ?thesis by blast
qed

text \<open>
  C6 as stated fails in two ways. With \<open>energy_cap = -1\<close> the all-zero assignment is not
  feasible (no assignment is: the state of charge would have to be at least 0 and at most
  \<open>-1\<close>). With \<open>power_cap = 0\<close> the assignment \<open>idle_daa\<close>, which charges in every
  quarter, is feasible.
\<close>

theorem no_capacity_no_trade_counterexample:
  "\<not> feasible (daa_model 1 (- 1) 1 ex_price_2h) zero_daa
   \<and> feasible (daa_model 1 1 0 ex_price_2h) idle_daa
   \<and> cha_daa idle_daa 1 = 1"
proof -
  have "\<not> daa_feasible 1 (- 1) 1 zero_daa" by code_simp
  moreover have "daa_feasible 1 1 0 idle_daa" by code_simp
  moreover have "cha_daa idle_daa 1 = 1" by (simp add: idle_daa_def)
  ultimately show ?thesis by simp
qed

subsection \<open>The values a stage returns\<close>

text \<open>
  C9, as amended. No stage clamps. When the solver loads a value into every variable and
  the vectors have the lengths the stage needs (Stage 1: a price vector of 96 entries;
  Stages 2 and 3: a price vector of at least 96 entries and two prior vectors as long as
  it), the stage returns, and the state-of-charge, charge, discharge and closing vectors
  it returns are the solver's values of quarters 1 to the length of the price vector,
  unchanged, whether or not they lie in \<open>[0,1]\<close>; no error is raised for a value
  outside the bounds.
\<close>

theorem stages_return_solver_values:
  "(length price = 96 \<and> solver1 (daa_model n_cycles energy_cap power_cap price) = Values m1 \<longrightarrow>
      (\<exists>r. step1_optimize_daa solver1 n_cycles energy_cap power_cap price = Inr r
         \<and> out_step1_soc_daa r = map (soc_daa m1) [1..<97]
         \<and> out_step1_cha_daa r = map (cha_daa m1) [1..<97]
         \<and> out_step1_dis_daa r = map (dis_daa m1) [1..<97]))
   \<and> (96 \<le> length price \<and> length prior_cha = length price \<and> length prior_dis = length price
        \<and> solver2 (ida_model n_cycles energy_cap power_cap price prior_cha prior_dis) = Values m2
      \<longrightarrow>
      (\<exists>r. step2_optimize_ida solver2 n_cycles energy_cap power_cap price prior_cha prior_dis
            = Inr r
         \<and> out_step2_soc_ida r = map (soc_ida m2) [1..<length price + 1]
         \<and> out_step2_cha_ida r = map (cha_ida m2) [1..<length price + 1]
         \<and> out_step2_dis_ida r = map (dis_ida m2) [1..<length price + 1]
         \<and> out_step2_cha_ida_close r = map (cha_ida_close m2) [1..<length price + 1]
         \<and> out_step2_dis_ida_close r = map (dis_ida_close m2) [1..<length price + 1]))
   \<and> (96 \<le> length price \<and> length prior_cha = length price \<and> length prior_dis = length price
        \<and> solver3 (idc_model n_cycles energy_cap power_cap price prior_cha prior_dis) = Values m3
      \<longrightarrow>
      (\<exists>r. step3_optimize_idc solver3 n_cycles energy_cap power_cap price prior_cha prior_dis
            = Inr r
         \<and> out_step3_soc_idc r = map (soc_idc m3) [1..<length price + 1]
         \<and> out_step3_cha_idc r = map (cha_idc m3) [1..<length price + 1]
         \<and> out_step3_dis_idc r = map (dis_idc m3) [1..<length price + 1]
         \<and> out_step3_cha_idc_close r = map (cha_idc_close m3) [1..<length price + 1]
         \<and> out_step3_dis_idc_close r = map (dis_idc_close m3) [1..<length price + 1]))"
proof (intro conjI impI; elim conjE)
  assume "length price = 96" "solver1 (daa_model n_cycles energy_cap power_cap price) = Values m1"
  then show "\<exists>r. step1_optimize_daa solver1 n_cycles energy_cap power_cap price = Inr r
         \<and> out_step1_soc_daa r = map (soc_daa m1) [1..<97]
         \<and> out_step1_cha_daa r = map (cha_daa m1) [1..<97]
         \<and> out_step1_dis_daa r = map (dis_daa m1) [1..<97]"
    by (simp add: step1_optimize_daa_def daa_build_def Let_def)
next
  assume "96 \<le> length price" "length prior_cha = length price" "length prior_dis = length price"
    "solver2 (ida_model n_cycles energy_cap power_cap price prior_cha prior_dis) = Values m2"
  then show "\<exists>r. step2_optimize_ida solver2 n_cycles energy_cap power_cap price prior_cha prior_dis
            = Inr r
         \<and> out_step2_soc_ida r = map (soc_ida m2) [1..<length price + 1]
         \<and> out_step2_cha_ida r = map (cha_ida m2) [1..<length price + 1]
         \<and> out_step2_dis_ida r = map (dis_ida m2) [1..<length price + 1]
         \<and> out_step2_cha_ida_close r = map (cha_ida_close m2) [1..<length price + 1]
         \<and> out_step2_dis_ida_close r = map (dis_ida_close m2) [1..<length price + 1]"
    by (simp add: step2_optimize_ida_def ida_build_def Let_def del: upt_Suc)
next
  assume "96 \<le> length price" "length prior_cha = length price" "length prior_dis = length price"
    "solver3 (idc_model n_cycles energy_cap power_cap price prior_cha prior_dis) = Values m3"
  then show "\<exists>r. step3_optimize_idc solver3 n_cycles energy_cap power_cap price prior_cha prior_dis
            = Inr r
         \<and> out_step3_soc_idc r = map (soc_idc m3) [1..<length price + 1]
         \<and> out_step3_cha_idc r = map (cha_idc m3) [1..<length price + 1]
         \<and> out_step3_dis_idc r = map (dis_idc m3) [1..<length price + 1]
         \<and> out_step3_cha_idc_close r = map (cha_idc_close m3) [1..<length price + 1]
         \<and> out_step3_dis_idc_close r = map (dis_idc_close m3) [1..<length price + 1]"
    by (simp add: step3_optimize_idc_def idc_build_def Let_def del: upt_Suc)
qed

theorem stages_return_solver_values_witness:
  "length ex_price_2h = 96
   \<and> (\<exists>r. step1_optimize_daa (\<lambda>lp. Values noisy_daa) 1 4 4 ex_price_2h = Inr r
         \<and> out_step1_soc_daa r = map (soc_daa noisy_daa) [1..<97]
         \<and> out_step1_cha_daa r = map (cha_daa noisy_daa) [1..<97]
         \<and> out_step1_dis_daa r = map (dis_daa noisy_daa) [1..<97])
   \<and> (96 \<le> length ex_price_0 \<and> length ex_prior_cha = length ex_price_0
        \<and> length ex_prior_dis = length ex_price_0)
   \<and> (\<exists>r. step2_optimize_ida (\<lambda>lp. Values ex_ida) 1 4 4 ex_price_0 ex_prior_cha ex_prior_dis
            = Inr r
         \<and> out_step2_soc_ida r = map (soc_ida ex_ida) [1..<length ex_price_0 + 1]
         \<and> out_step2_cha_ida r = map (cha_ida ex_ida) [1..<length ex_price_0 + 1]
         \<and> out_step2_dis_ida r = map (dis_ida ex_ida) [1..<length ex_price_0 + 1]
         \<and> out_step2_cha_ida_close r = map (cha_ida_close ex_ida) [1..<length ex_price_0 + 1]
         \<and> out_step2_dis_ida_close r = map (dis_ida_close ex_ida) [1..<length ex_price_0 + 1])
   \<and> (\<exists>r. step3_optimize_idc (\<lambda>lp. Values ex_idc) 1 4 4 ex_price_0 ex_prior_cha ex_prior_dis
            = Inr r
         \<and> out_step3_soc_idc r = map (soc_idc ex_idc) [1..<length ex_price_0 + 1]
         \<and> out_step3_cha_idc r = map (cha_idc ex_idc) [1..<length ex_price_0 + 1]
         \<and> out_step3_dis_idc r = map (dis_idc ex_idc) [1..<length ex_price_0 + 1]
         \<and> out_step3_cha_idc_close r = map (cha_idc_close ex_idc) [1..<length ex_price_0 + 1]
         \<and> out_step3_dis_idc_close r = map (dis_idc_close ex_idc) [1..<length ex_price_0 + 1])"
proof -
  have n1: "length ex_price_2h = 96"
    by (simp add: ex_price_2h_def)
  have n2: "96 \<le> length ex_price_0 \<and> length ex_prior_cha = length ex_price_0
        \<and> length ex_prior_dis = length ex_price_0"
    by (simp add: ex_priors_unit)
  note t = stages_return_solver_values [of ex_price_2h "\<lambda>lp. Values noisy_daa" 1 4 4 noisy_daa]
  note u = stages_return_solver_values [of ex_price_0 _ 1 4 4 _ ex_prior_cha ex_prior_dis
      "\<lambda>lp. Values ex_ida" ex_ida "\<lambda>lp. Values ex_idc" ex_idc]
  from t n1
  have c1: "\<exists>r. step1_optimize_daa (\<lambda>lp. Values noisy_daa) 1 4 4 ex_price_2h = Inr r
         \<and> out_step1_soc_daa r = map (soc_daa noisy_daa) [1..<97]
         \<and> out_step1_cha_daa r = map (cha_daa noisy_daa) [1..<97]
         \<and> out_step1_dis_daa r = map (dis_daa noisy_daa) [1..<97]"
    by blast
  from u n2
  have c2: "\<exists>r. step2_optimize_ida (\<lambda>lp. Values ex_ida) 1 4 4 ex_price_0 ex_prior_cha ex_prior_dis
            = Inr r
         \<and> out_step2_soc_ida r = map (soc_ida ex_ida) [1..<length ex_price_0 + 1]
         \<and> out_step2_cha_ida r = map (cha_ida ex_ida) [1..<length ex_price_0 + 1]
         \<and> out_step2_dis_ida r = map (dis_ida ex_ida) [1..<length ex_price_0 + 1]
         \<and> out_step2_cha_ida_close r = map (cha_ida_close ex_ida) [1..<length ex_price_0 + 1]
         \<and> out_step2_dis_ida_close r = map (dis_ida_close ex_ida) [1..<length ex_price_0 + 1]"
    by blast
  from u n2
  have c3: "\<exists>r. step3_optimize_idc (\<lambda>lp. Values ex_idc) 1 4 4 ex_price_0 ex_prior_cha ex_prior_dis
            = Inr r
         \<and> out_step3_soc_idc r = map (soc_idc ex_idc) [1..<length ex_price_0 + 1]
         \<and> out_step3_cha_idc r = map (cha_idc ex_idc) [1..<length ex_price_0 + 1]
         \<and> out_step3_dis_idc r = map (dis_idc ex_idc) [1..<length ex_price_0 + 1]
         \<and> out_step3_cha_idc_close r = map (cha_idc_close ex_idc) [1..<length ex_price_0 + 1]
         \<and> out_step3_dis_idc_close r = map (dis_idc_close ex_idc) [1..<length ex_price_0 + 1]"
    by blast
  from n1 n2 c1 c2 c3 show ?thesis by blast
qed

text \<open>
  C9 as stated fails. In the spec's two-hour scenario, when the solver leaves the optimum
  with the charges of hour 0 at \<open>1 + 10\<^sup>-\<^sup>9\<close>, Stage 1 returns normally and the first four
  entries of the charge vector it returns are \<open>1 + 10\<^sup>-\<^sup>9\<close>, above the bound 1: the value
  is not clamped.
\<close>

theorem stages_return_solver_values_counterexample:
  "map_sum id out_step1_cha_daa
       (step1_optimize_daa (\<lambda>lp. Values noisy_daa) 1 4 4 ex_price_2h)
     = Inr (replicate 4 (1 + 1 / 10 ^ 9) @ replicate 92 0)
   \<and> cha_daa noisy_daa 1 = 1 + 1 / 10 ^ 9
   \<and> (1::real) < 1 + 1 / 10 ^ 9"
proof -
  have "map_sum id out_step1_cha_daa
       (step1_optimize_daa (\<lambda>lp. Values noisy_daa) 1 4 4 ex_price_2h)
     = Inr (replicate 4 (1 + 1 / 10 ^ 9) @ replicate 92 0)"
    by code_simp
  moreover have "cha_daa noisy_daa 1 = 1 + 1 / 10 ^ 9"
    by (simp add: noisy_daa_def)
  ultimately show ?thesis by simp
qed

subsection \<open>What the later stages check of their arguments\<close>




end
